theory Spec2Isabelle
  imports Complex_Main
begin

section \<open>The TrendingPosts component\<close>

text \<open>
  The repository holds the React component \<open>TrendingPosts\<close> in two variants:
  \<^item> \<open>frontend/src/components/TrendingPosts.js\<close>, suffix \<open>_components\<close> below;
  \<^item> the file \<open>src/unnamed/part_000\<close>, suffix \<open>_part0\<close> below.
  Both are embedded, function by function. Styling attributes and React keys are left out
  of the element trees, and so is the logging of a caught error by \<open>console.error\<close>.
\<close>

subsection \<open>JavaScript values\<close>

text \<open>
  A value as it arrives in a parsed JSON body or sits in a state variable. A number is
  given by its exact value (JSON carries neither NaN nor infinities). An object is the
  list of its own properties, each name once.
\<close>

datatype jsval =
    JUndefined
  | JNull
  | JBool bool
  | JNum rat
  | JStr string
  | JArr "jsval list"
  | JObj "(string \<times> jsval) list"

text \<open>What \<open>x || y\<close> and \<open>x ? a : b\<close> test.\<close>

fun truthy :: "jsval \<Rightarrow> bool" where
  "truthy JUndefined = False"
| "truthy JNull = False"
| "truthy (JBool b) = b"
| "truthy (JNum r) = (r \<noteq> 0)"
| "truthy (JStr s) = (s \<noteq> [])"
| "truthy (JArr xs) = True"
| "truthy (JObj fs) = True"

datatype type_error = TypeError

text \<open>
  Property read \<open>v.k\<close>, for the property names the component reads (\<open>error\<close>,
  \<open>sentiment\<close>, \<open>text\<close>, \<open>score\<close>, \<open>length\<close>): reading a property of
  \<open>undefined\<close> or \<open>null\<close> throws, a missing property is \<open>undefined\<close>.
\<close>

fun get_prop :: "jsval \<Rightarrow> string \<Rightarrow> type_error + jsval" where
  "get_prop JUndefined k = Inl TypeError"
| "get_prop JNull k = Inl TypeError"
| "get_prop (JObj fs) k = Inr (case map_of fs k of Some v \<Rightarrow> v | None \<Rightarrow> JUndefined)"
| "get_prop (JArr xs) k = Inr (if k = ''length'' then JNum (of_nat (length xs)) else JUndefined)"
| "get_prop (JStr s) k = Inr (if k = ''length'' then JNum (of_nat (length s)) else JUndefined)"
| "get_prop (JBool b) k = Inr JUndefined"
| "get_prop (JNum r) k = Inr JUndefined"

text \<open>Optional chaining \<open>v?.k\<close>.\<close>

definition opt_prop :: "jsval \<Rightarrow> string \<Rightarrow> jsval" where
  "opt_prop v k = (case get_prop v k of Inl _ \<Rightarrow> JUndefined | Inr x \<Rightarrow> x)"

text \<open>\<open>Array.isArray\<close>.\<close>

fun isArray :: "jsval \<Rightarrow> bool" where
  "isArray (JArr xs) = True"
| "isArray _ = False"

subsection \<open>Errors, the environment of a fetch cycle, the component's state\<close>

text \<open>
  A caught error: its \<open>message\<close>, and \<open>response.data\<close> when the error carries a
  response (an HTTP error status), \<open>None\<close> when \<open>err.response\<close> is undefined.
\<close>

datatype js_error = JsError (message: string) (response: "jsval option")

text \<open>\<open>axios.get\<close> resolves with a response (its \<open>data\<close>) or rejects with an error.\<close>

datatype axios_result = Resolved jsval | Rejected js_error

text \<open>
  What one fetch cycle reads from outside: \<open>process.env.REACT_APP_BACKEND_URL\<close>
  (\<open>None\<close> when undefined), the backend's answer to a GET of a URL, and the clock
  read by \<open>new Date()\<close> when the answer arrives.
\<close>

record env =
  backend_url :: "string option"
  axios_get :: "string \<Rightarrow> axios_result"
  now :: nat

text \<open>The four \<open>useState\<close> variables.\<close>

record poll_state =
  trends :: jsval
  isLoading :: bool
  error :: jsval
  lastUpdated :: "nat option"

definition initial_state :: poll_state where
  "initial_state = \<lparr>trends = JArr [], isLoading = True, error = JStr [], lastUpdated = None\<rparr>"

text \<open>\<open>err.response?.data?.error\<close>.\<close>

definition server_error :: "js_error \<Rightarrow> jsval" where
  "server_error err = (case response err of None \<Rightarrow> JUndefined | Some d \<Rightarrow> opt_prop d ''error'')"

text \<open>The \<open>finally\<close> block, the same in both variants.\<close>

definition fetchTrends_finally :: "poll_state \<Rightarrow> poll_state" where
  "fetchTrends_finally s = s\<lparr>isLoading := False\<rparr>"

subsection \<open>fetchTrends in frontend/src/components/TrendingPosts.js\<close>

text \<open>
  Lines 12 and 13, up to the \<open>try\<close>. The callback is created anew whenever
  \<open>lastUpdated\<close> changes (its dependency list), so the value it tests is the one of the
  state.
\<close>

definition fetchTrends_begin_components :: "poll_state \<Rightarrow> poll_state" where
  "fetchTrends_begin_components s =
     (if lastUpdated s = None then s\<lparr>isLoading := True\<rparr> else s)\<lparr>error := JStr []\<rparr>"

text \<open>Line 17: the configured URL, or the default when it is undefined or empty.\<close>

definition apiBase_components :: "env \<Rightarrow> string" where
  "apiBase_components e =
     (case backend_url e of
        None \<Rightarrow> ''http://127.0.0.1:5001''
      | Some u \<Rightarrow> if u \<noteq> [] then u else ''http://127.0.0.1:5001'')"

text \<open>Line 23: the text handed to \<open>setError\<close>.\<close>

definition error_text_components :: "js_error \<Rightarrow> jsval" where
  "error_text_components err =
     (if truthy (server_error err) then server_error err else JStr ''Could not load trends.'')"

definition fetchTrends_catch_components :: "js_error \<Rightarrow> poll_state \<Rightarrow> poll_state" where
  "fetchTrends_catch_components err s = s\<lparr>error := error_text_components err\<rparr>"

text \<open>The code after the \<open>await\<close>, run when the request settles at time \<open>t\<close>.\<close>

definition fetchTrends_resume_components :: "axios_result \<Rightarrow> nat \<Rightarrow> poll_state \<Rightarrow> poll_state" where
  "fetchTrends_resume_components r t s =
     fetchTrends_finally
       (case r of
          Resolved d \<Rightarrow> s\<lparr>trends := d, lastUpdated := Some t\<rparr>
        | Rejected err \<Rightarrow> fetchTrends_catch_components err s)"

text \<open>
  The synchronous part of a call, up to the \<open>await\<close>: the state it leaves, and the URL
  of the request it issued.
\<close>

definition fetchTrends_start_components :: "env \<Rightarrow> poll_state \<Rightarrow> poll_state \<times> string option" where
  "fetchTrends_start_components e s =
     (fetchTrends_begin_components s, Some (apiBase_components e @ ''/api/trending''))"

text \<open>
  One whole cycle: the state it ends in, and the URLs of the HTTP requests it issued.
\<close>

definition fetchTrends_components :: "env \<Rightarrow> poll_state \<Rightarrow> poll_state \<times> string list" where
  "fetchTrends_components e s =
     (case fetchTrends_start_components e s of
        (s1, None) \<Rightarrow> (s1, [])
      | (s1, Some url) \<Rightarrow> (fetchTrends_resume_components (axios_get e url) (now e) s1, [url]))"

subsection \<open>fetchTrends in src/unnamed/part_000\<close>

text \<open>Lines 12 and 13.\<close>

definition fetchTrends_begin_part0 :: "poll_state \<Rightarrow> poll_state" where
  "fetchTrends_begin_part0 s = s\<lparr>isLoading := True, error := JStr []\<rparr>"

text \<open>Lines 16 and 17: an undefined or empty URL throws.\<close>

definition apiBase_part0 :: "env \<Rightarrow> js_error + string" where
  "apiBase_part0 e =
     (case backend_url e of
        None \<Rightarrow> Inl (JsError ''REACT_APP_BACKEND_URL not set in .env'' None)
      | Some u \<Rightarrow> if u \<noteq> [] then Inr u
                  else Inl (JsError ''REACT_APP_BACKEND_URL not set in .env'' None))"

text \<open>Line 20.\<close>

definition validate_part0 :: "jsval \<Rightarrow> js_error + jsval" where
  "validate_part0 d =
     (if \<not> isArray d then Inl (JsError ''Unexpected backend response'' None) else Inr d)"

text \<open>Line 26.\<close>

definition error_text_part0 :: "js_error \<Rightarrow> jsval" where
  "error_text_part0 err =
     (if truthy (server_error err) then server_error err
      else if message err \<noteq> [] then JStr (message err)
      else JStr ''Could not load trends.'')"

definition fetchTrends_catch_part0 :: "js_error \<Rightarrow> poll_state \<Rightarrow> poll_state" where
  "fetchTrends_catch_part0 err s = s\<lparr>error := error_text_part0 err\<rparr>"

text \<open>Lines 20 to 29, run when the request settles at time \<open>t\<close>.\<close>

definition fetchTrends_resume_part0 :: "axios_result \<Rightarrow> nat \<Rightarrow> poll_state \<Rightarrow> poll_state" where
  "fetchTrends_resume_part0 r t s =
     fetchTrends_finally
       (case r of
          Rejected err \<Rightarrow> fetchTrends_catch_part0 err s
        | Resolved d \<Rightarrow>
            (case validate_part0 d of
               Inl err \<Rightarrow> fetchTrends_catch_part0 err s
             | Inr d' \<Rightarrow> s\<lparr>trends := d', lastUpdated := Some t\<rparr>))"

text \<open>
  The synchronous part of a call: when the URL is missing, the \<open>catch\<close> and
  \<open>finally\<close> blocks run at once and no request is issued.
\<close>

definition fetchTrends_start_part0 :: "env \<Rightarrow> poll_state \<Rightarrow> poll_state \<times> string option" where
  "fetchTrends_start_part0 e s =
     (let s1 = fetchTrends_begin_part0 s
      in case apiBase_part0 e of
           Inl err \<Rightarrow> (fetchTrends_finally (fetchTrends_catch_part0 err s1), None)
         | Inr base \<Rightarrow> (s1, Some (base @ ''/api/trending'')))"

definition fetchTrends_part0 :: "env \<Rightarrow> poll_state \<Rightarrow> poll_state \<times> string list" where
  "fetchTrends_part0 e s =
     (case fetchTrends_start_part0 e s of
        (s1, None) \<Rightarrow> (s1, [])
      | (s1, Some url) \<Rightarrow> (fetchTrends_resume_part0 (axios_get e url) (now e) s1, [url]))"

subsection \<open>Both variants side by side\<close>

datatype variant = Components | Part0

definition fetchTrends_begin :: "variant \<Rightarrow> poll_state \<Rightarrow> poll_state" where
  "fetchTrends_begin v =
     (case v of Components \<Rightarrow> fetchTrends_begin_components | Part0 \<Rightarrow> fetchTrends_begin_part0)"

definition fetchTrends_start :: "variant \<Rightarrow> env \<Rightarrow> poll_state \<Rightarrow> poll_state \<times> string option" where
  "fetchTrends_start v =
     (case v of Components \<Rightarrow> fetchTrends_start_components | Part0 \<Rightarrow> fetchTrends_start_part0)"

definition fetchTrends_resume :: "variant \<Rightarrow> axios_result \<Rightarrow> nat \<Rightarrow> poll_state \<Rightarrow> poll_state" where
  "fetchTrends_resume v =
     (case v of Components \<Rightarrow> fetchTrends_resume_components | Part0 \<Rightarrow> fetchTrends_resume_part0)"

definition fetchTrends :: "variant \<Rightarrow> env \<Rightarrow> poll_state \<Rightarrow> poll_state \<times> string list" where
  "fetchTrends v =
     (case v of Components \<Rightarrow> fetchTrends_components | Part0 \<Rightarrow> fetchTrends_part0)"

text \<open>
  How the \<open>try\<close> block of a cycle ends: with a thrown or rejected error (\<open>Inl\<close>, the
  \<open>catch\<close> block runs) or with the payload handed to \<open>setTrends\<close> (\<open>Inr\<close>).
\<close>

definition try_block_components :: "env \<Rightarrow> js_error + jsval" where
  "try_block_components e =
     (case axios_get e (apiBase_components e @ ''/api/trending'') of
        Resolved d \<Rightarrow> Inr d
      | Rejected err \<Rightarrow> Inl err)"

definition try_block_part0 :: "env \<Rightarrow> js_error + jsval" where
  "try_block_part0 e =
     (case apiBase_part0 e of
        Inl err \<Rightarrow> Inl err
      | Inr base \<Rightarrow>
          (case axios_get e (base @ ''/api/trending'') of
             Resolved d \<Rightarrow> validate_part0 d
           | Rejected err \<Rightarrow> Inl err))"

definition try_block :: "variant \<Rightarrow> env \<Rightarrow> js_error + jsval" where
  "try_block v = (case v of Components \<Rightarrow> try_block_components | Part0 \<Rightarrow> try_block_part0)"

definition cycle_succeeds :: "variant \<Rightarrow> env \<Rightarrow> bool" where
  "cycle_succeeds v e = (\<not> isl (try_block v e))"

text \<open>
  A sequence of fetch cycles, each in its own environment, each finished before the next
  one starts.
\<close>

fun run :: "variant \<Rightarrow> poll_state \<Rightarrow> env list \<Rightarrow> poll_state" where
  "run v s [] = s"
| "run v s (e # es) = run v (fst (fetchTrends v e s)) es"

text \<open>The clock value of the last cycle of a sequence that succeeded, if any did.\<close>

fun last_success :: "variant \<Rightarrow> env list \<Rightarrow> nat option" where
  "last_success v [] = None"
| "last_success v (e # es) =
     (case last_success v es of
        Some t \<Rightarrow> Some t
      | None \<Rightarrow> if cycle_succeeds v e then Some (now e) else None)"

subsection \<open>The element tree the component returns\<close>

datatype element =
    Text string
  | Expr jsval
  | Tag string "element list"

text \<open>
  The header, the same in both variants. \<open>toLocaleTimeString\<close> is the library's
  formatting of a date.
\<close>

definition header :: "(nat \<Rightarrow> string) \<Rightarrow> poll_state \<Rightarrow> element" where
  "header toLocaleTimeString s =
     Tag ''div''
       [Tag ''h2'' [Text ''Live Posts from X''],
        (case lastUpdated s of
           None \<Rightarrow> Expr JNull
         | Some d \<Rightarrow> Tag ''span'' [Text ''Updated at: '', Expr (JStr (toLocaleTimeString d))])]"

text \<open>\<open>xs.map(f)\<close> where \<open>f\<close> may throw; on a value that is no array, \<open>map\<close> is no function.\<close>

fun map_throw :: "('a \<Rightarrow> type_error + 'b) \<Rightarrow> 'a list \<Rightarrow> type_error + 'b list" where
  "map_throw f [] = Inr []"
| "map_throw f (x # xs) =
     (case f x of
        Inl e \<Rightarrow> Inl e
      | Inr y \<Rightarrow> (case map_throw f xs of Inl e \<Rightarrow> Inl e | Inr ys \<Rightarrow> Inr (y # ys)))"

fun js_map :: "(jsval \<Rightarrow> type_error + 'b) \<Rightarrow> jsval \<Rightarrow> type_error + 'b list" where
  "js_map f (JArr xs) = map_throw f xs"
| "js_map f _ = Inl TypeError"

text \<open>frontend/src/components/TrendingPosts.js, lines 35 to 67.\<close>

definition li_components :: "jsval \<Rightarrow> type_error + element" where
  "li_components trend = Inr (Tag ''li'' [Expr trend])"

definition TrendingPosts_render_components :: "(nat \<Rightarrow> string) \<Rightarrow> poll_state \<Rightarrow> type_error + element" where
  "TrendingPosts_render_components toLocaleTimeString s =
     (if isLoading s then
        Inr (Tag ''div'' [header toLocaleTimeString s, Tag ''p'' [Text ''Loading posts...'']])
      else if truthy (error s) then
        Inr (Tag ''div'' [header toLocaleTimeString s, Tag ''p'' [Expr (error s)]])
      else
        (case js_map li_components (trends s) of
           Inl e \<Rightarrow> Inl e
         | Inr lis \<Rightarrow> Inr (Tag ''div'' [header toLocaleTimeString s, Tag ''ul'' lis])))"

text \<open>
  src/unnamed/part_000, lines 38 to 77. \<open>toFixed\<close> is the library's
  \<open>Number.prototype.toFixed\<close>; calling it on a value that is no number throws.
\<close>

definition score_text :: "(rat \<Rightarrow> nat \<Rightarrow> string) \<Rightarrow> jsval \<Rightarrow> type_error + jsval" where
  "score_text toFixed sc =
     (case sc of
        JUndefined \<Rightarrow> Inr (JStr ''N/A'')
      | JNull \<Rightarrow> Inr (JStr ''N/A'')
      | JNum r \<Rightarrow> Inr (JStr (toFixed r 2))
      | _ \<Rightarrow> Inl TypeError)"

definition li_part0 :: "(rat \<Rightarrow> nat \<Rightarrow> string) \<Rightarrow> jsval \<Rightarrow> type_error + element" where
  "li_part0 toFixed trend =
     (case get_prop trend ''sentiment'' of
        Inl e \<Rightarrow> Inl e
      | Inr sen \<Rightarrow>
          (case get_prop trend ''text'' of
             Inl e \<Rightarrow> Inl e
           | Inr txt \<Rightarrow>
               (case get_prop trend ''score'' of
                  Inl e \<Rightarrow> Inl e
                | Inr sc \<Rightarrow>
                    (case score_text toFixed sc of
                       Inl e \<Rightarrow> Inl e
                     | Inr shown \<Rightarrow>
                         Inr (Tag ''li''
                               [Tag ''div'' [Tag ''strong'' [Text ''Sentiment:''], Text '' '', Expr sen],
                                Tag ''div'' [Expr txt],
                                Tag ''div'' [Text ''Score: '', Expr shown]])))))"

definition TrendingPosts_render_part0 ::
  "(rat \<Rightarrow> nat \<Rightarrow> string) \<Rightarrow> (nat \<Rightarrow> string) \<Rightarrow> poll_state \<Rightarrow> type_error + element" where
  "TrendingPosts_render_part0 toFixed toLocaleTimeString s =
     (if isLoading s then
        Inr (Tag ''div'' [header toLocaleTimeString s, Tag ''p'' [Text ''Loading posts...'']])
      else if truthy (error s) then
        Inr (Tag ''div'' [header toLocaleTimeString s, Tag ''p'' [Expr (error s)]])
      else
        (case get_prop (trends s) ''length'' of
           Inl e \<Rightarrow> Inl e
         | Inr n \<Rightarrow>
             if n = JNum 0 then
               Inr (Tag ''div'' [header toLocaleTimeString s, Tag ''p'' [Text ''No trending posts found.'']])
             else
               (case js_map (li_part0 toFixed) (trends s) of
                  Inl e \<Rightarrow> Inl e
                | Inr lis \<Rightarrow> Inr (Tag ''div'' [header toLocaleTimeString s, Tag ''ul'' lis]))))"

subsection \<open>The effect: first call, interval timer, cleanup\<close>

text \<open>
  The component as the effect of lines 32 to 36 (29 to 33 in
  frontend/src/components) sees it: the state variables, whether the interval timer is
  set, the URLs requested so far, and whether React still has the component mounted.
  Neither variant keeps a flag of its own that says whether the component is mounted, and
  neither checks anything after the \<open>await\<close>; it is React that discards a state-setter
  call made for a component that is no longer mounted.
\<close>

record component =
  pstate :: poll_state
  interval_set :: bool
  sent :: "string list"
  mounted :: bool

text \<open>React's rule for the state-setter calls of a piece of code.\<close>

definition setState :: "component \<Rightarrow> poll_state \<Rightarrow> component" where
  "setState c s = (if mounted c then c\<lparr>pstate := s\<rparr> else c)"

definition call_fetchTrends :: "variant \<Rightarrow> env \<Rightarrow> component \<Rightarrow> component" where
  "call_fetchTrends v e c =
     (case fetchTrends_start v e (pstate c) of
        (s1, None) \<Rightarrow> setState c s1
      | (s1, Some url) \<Rightarrow> (setState c s1)\<lparr>sent := sent c @ [url]\<rparr>)"

text \<open>The effect body: \<open>fetchTrends()\<close>, then \<open>setInterval(fetchTrends, 300000)\<close>.\<close>

definition useEffect_run :: "variant \<Rightarrow> env \<Rightarrow> component \<Rightarrow> component" where
  "useEffect_run v e c = (call_fetchTrends v e c)\<lparr>interval_set := True\<rparr>"

text \<open>The effect's cleanup: \<open>clearInterval(intervalId)\<close>.\<close>

definition useEffect_cleanup :: "component \<Rightarrow> component" where
  "useEffect_cleanup c = c\<lparr>interval_set := False\<rparr>"

text \<open>The component is created: initial state, then the effect.\<close>

definition mount :: "variant \<Rightarrow> env \<Rightarrow> component" where
  "mount v e =
     useEffect_run v e \<lparr>pstate = initial_state, interval_set = False, sent = [], mounted = True\<rparr>"

text \<open>The component is torn down: React runs the cleanup and drops the component.\<close>

definition unmount :: "component \<Rightarrow> component" where
  "unmount c = (useEffect_cleanup c)\<lparr>mounted := False\<rparr>"

text \<open>The timer's period elapses: a set timer calls \<open>fetchTrends\<close>, a cleared one nothing.\<close>

definition tick :: "variant \<Rightarrow> env \<Rightarrow> component \<Rightarrow> component" where
  "tick v e c = (if interval_set c then call_fetchTrends v e c else c)"

text \<open>
  A request in flight settles at time \<open>t\<close>: the code after the \<open>await\<close> runs. In
  frontend/src/components the callback depends on \<open>lastUpdated\<close> (line 27) and the
  effect on the callback (line 33): when the request has resolved, \<open>lastUpdated\<close> holds
  a new date, and React runs the cleanup and the effect again, which calls
  \<open>fetchTrends\<close> at once, in the environment \<open>e\<close>. In part_000 the callback never
  changes (line 30). For a component that is no longer mounted nothing is rendered and no
  effect runs.
\<close>

definition settle :: "variant \<Rightarrow> axios_result \<Rightarrow> nat \<Rightarrow> env \<Rightarrow> component \<Rightarrow> component" where
  "settle v r t e c =
     (let c1 = setState c (fetchTrends_resume v r t (pstate c))
      in case v of
           Part0 \<Rightarrow> c1
         | Components \<Rightarrow>
             (case r of
                Rejected err \<Rightarrow> c1
              | Resolved d \<Rightarrow>
                  if mounted c then useEffect_run Components e (useEffect_cleanup c1) else c1))"

text \<open>What happens to a component after its creation, one event after the other.\<close>

datatype event = Tick env | Settle axios_result nat env

fun step :: "variant \<Rightarrow> event \<Rightarrow> component \<Rightarrow> component" where
  "step v (Tick e) c = tick v e c"
| "step v (Settle r t e) c = settle v r t e c"

fun steps :: "variant \<Rightarrow> event list \<Rightarrow> component \<Rightarrow> component" where
  "steps v [] c = c"
| "steps v (ev # evs) c = steps v evs (step v ev c)"

text \<open>The time of the last request of a sequence that resolved with an array, if any did.\<close>

fun settled_ok :: "event \<Rightarrow> bool" where
  "settled_ok (Settle (Resolved (JArr xs)) t e) = True"
| "settled_ok _ = False"

fun settle_time :: "event \<Rightarrow> nat" where
  "settle_time (Settle r t e) = t"
| "settle_time (Tick e) = 0"

fun last_settled_ok :: "event list \<Rightarrow> nat option" where
  "last_settled_ok [] = None"
| "last_settled_ok (ev # evs) =
     (case last_settled_ok evs of
        Some t \<Rightarrow> Some t
      | None \<Rightarrow> if settled_ok ev then Some (settle_time ev) else None)"

subsection \<open>Trend items as the specification describes them\<close>

text \<open>
  A trend item has a string \<open>text\<close>, a string \<open>sentiment\<close> and an optional numeric
  \<open>score\<close>.
\<close>

definition well_formed_item :: "jsval \<Rightarrow> bool" where
  "well_formed_item x =
     (case x of
        JObj fs \<Rightarrow>
          (case map_of fs ''text'' of Some (JStr _) \<Rightarrow> True | _ \<Rightarrow> False) \<and>
          (case map_of fs ''sentiment'' of Some (JStr _) \<Rightarrow> True | _ \<Rightarrow> False) \<and>
          (case map_of fs ''score'' of None \<Rightarrow> True | Some (JNum _) \<Rightarrow> True | _ \<Rightarrow> False)
      | _ \<Rightarrow> False)"

text \<open>
  The entry the specification asks for: the item's sentiment, its text, and its score to
  two decimal places, or the placeholder when the item has no score.
\<close>

definition item_entry :: "(rat \<Rightarrow> nat \<Rightarrow> string) \<Rightarrow> jsval \<Rightarrow> element" where
  "item_entry toFixed x =
     Tag ''li''
       [Tag ''div'' [Tag ''strong'' [Text ''Sentiment:''], Text '' '', Expr (opt_prop x ''sentiment'')],
        Tag ''div'' [Expr (opt_prop x ''text'')],
        Tag ''div'' [Text ''Score: '',
                     Expr (JStr (case opt_prop x ''score'' of JNum r \<Rightarrow> toFixed r 2 | _ \<Rightarrow> ''N/A''))]]"


subsection \<open>Cycles as the specification classifies them\<close>

text \<open>
  The specification's fetch cycle, steps 2 to 5, read on the inputs of a cycle: the
  configuration is unset; or the request fails; or it succeeds with a body that is no
  sequence; or it succeeds with a sequence.
\<close>

datatype outcome =
    ConfigFailure
  | TransportFailure js_error
  | ValidationFailure jsval
  | Success jsval

definition outcome_by_spec :: "env \<Rightarrow> outcome" where
  "outcome_by_spec e =
     (case backend_url e of
        None \<Rightarrow> ConfigFailure
      | Some u \<Rightarrow>
          if u = [] then ConfigFailure
          else (case axios_get e (u @ ''/api/trending'') of
                  Rejected err \<Rightarrow> TransportFailure err
                | Resolved d \<Rightarrow> if isArray d then Success d else ValidationFailure d))"

fun succeeded :: "outcome \<Rightarrow> bool" where
  "succeeded (Success d) = True"
| "succeeded _ = False"

text \<open>The clock value of the last cycle of a sequence that the specification counts as a success.\<close>

fun last_ok :: "env list \<Rightarrow> nat option" where
  "last_ok [] = None"
| "last_ok (e # es) =
     (case last_ok es of
        Some t \<Rightarrow> Some t
      | None \<Rightarrow> if succeeded (outcome_by_spec e) then Some (now e) else None)"

text \<open>
  The server-supplied error text, when there is one: the error has a response, its body
  is an object with an \<open>error\<close> field, and the field is not empty (not falsy).
\<close>

definition body_error_field :: "jsval option \<Rightarrow> jsval option" where
  "body_error_field resp =
     (case resp of
        Some (JObj fs) \<Rightarrow>
          (case map_of fs ''error'' of
             Some x \<Rightarrow> if truthy x then Some x else None
           | None \<Rightarrow> None)
      | _ \<Rightarrow> None)"

subsection \<open>Concrete scenarios\<close>

text \<open>
  The backend answers used as test inputs: a list with one item, a list with two items,
  a list of strings, the empty list, an HTTP 500 with an error body, a failure without a
  response, a failure without a response and without a message, and a body that is no
  list.
\<close>

definition hello_item :: jsval where
  "hello_item =
     JObj [(''text'', JStr ''hello''), (''sentiment'', JStr ''positive''), (''score'', JNum (87 / 100))]"

definition bye_item :: jsval where
  "bye_item = JObj [(''sentiment'', JStr ''negative''), (''text'', JStr ''bye'')]"

definition backend_hello :: "string \<Rightarrow> axios_result" where
  "backend_hello url = Resolved (JArr [hello_item])"

definition backend_two :: "string \<Rightarrow> axios_result" where
  "backend_two url = Resolved (JArr [bye_item, hello_item])"

definition backend_titles :: "string \<Rightarrow> axios_result" where
  "backend_titles url = Resolved (JArr [JStr ''first post'', JStr ''second post''])"

definition backend_empty :: "string \<Rightarrow> axios_result" where
  "backend_empty url = Resolved (JArr [])"

definition backend_db_down :: "string \<Rightarrow> axios_result" where
  "backend_db_down url =
     Rejected (JsError ''Request failed with status code 500'' (Some (JObj [(''error'', JStr ''db down'')])))"

definition backend_unreachable :: "string \<Rightarrow> axios_result" where
  "backend_unreachable url = Rejected (JsError ''Network Error'' None)"

definition backend_silent :: "string \<Rightarrow> axios_result" where
  "backend_silent url = Rejected (JsError [] None)"

definition backend_object :: "string \<Rightarrow> axios_result" where
  "backend_object url = Resolved (JObj [(''status'', JStr ''ok'')])"

definition env_hello :: env where
  "env_hello = \<lparr>backend_url = Some ''http://api.test'', axios_get = backend_hello, now = 1000\<rparr>"

definition env_two :: env where
  "env_two = \<lparr>backend_url = Some ''http://api.test'', axios_get = backend_two, now = 1000\<rparr>"

definition env_titles :: env where
  "env_titles = \<lparr>backend_url = Some ''http://api.test'', axios_get = backend_titles, now = 1000\<rparr>"

definition env_empty :: env where
  "env_empty = \<lparr>backend_url = Some ''http://api.test'', axios_get = backend_empty, now = 1000\<rparr>"

definition env_db_down :: env where
  "env_db_down = \<lparr>backend_url = Some ''http://api.test'', axios_get = backend_db_down, now = 2000\<rparr>"

definition env_unreachable :: env where
  "env_unreachable = \<lparr>backend_url = Some ''http://api.test'', axios_get = backend_unreachable, now = 2000\<rparr>"

definition env_silent :: env where
  "env_silent = \<lparr>backend_url = Some ''http://api.test'', axios_get = backend_silent, now = 2000\<rparr>"

definition env_object :: env where
  "env_object = \<lparr>backend_url = Some ''http://api.test'', axios_get = backend_object, now = 2000\<rparr>"

definition env_unset :: env where
  "env_unset = \<lparr>backend_url = None, axios_get = backend_empty, now = 1000\<rparr>"

text \<open>
  Two cycles that overlap: the timer starts a second cycle while the first request is in
  flight, the second request fails, and the first one resolves after that.
\<close>

definition overlap_hello :: "event list" where
  "overlap_hello =
     [Tick env_db_down,
      Settle (Rejected (JsError ''Request failed with status code 500''
                          (Some (JObj [(''error'', JStr ''db down'')])))) 2000 env_db_down,
      Settle (Resolved (JArr [hello_item])) 3000 env_hello]"

text \<open>
  A request resolves after the teardown, the timer's period elapses, and another request
  is rejected.
\<close>

definition late_events :: "event list" where
  "late_events =
     [Settle (Resolved (JArr [hello_item])) 1000 env_hello,
      Tick env_hello,
      Settle (Rejected (JsError ''Network Error'' None)) 2000 env_unreachable]"

text \<open>Stand-ins for the two library formatters, fixed on the values the scenarios use.\<close>

definition toFixed_sample :: "rat \<Rightarrow> nat \<Rightarrow> string" where
  "toFixed_sample r n = (if r = 87 / 100 \<and> n = 2 then ''0.87'' else ''0.00'')"

definition toLocaleTimeString_sample :: "nat \<Rightarrow> string" where
  "toLocaleTimeString_sample t = (if t = 1000 then ''10:00:01'' else ''10:00:02'')"

lemmas scenario_defs =
  hello_item_def bye_item_def backend_hello_def backend_two_def backend_titles_def
  backend_empty_def backend_db_down_def backend_unreachable_def backend_silent_def
  backend_object_def env_hello_def env_two_def env_titles_def env_empty_def env_db_down_def
  env_unreachable_def env_silent_def env_object_def env_unset_def overlap_hello_def
  late_events_def toFixed_sample_def toLocaleTimeString_sample_def

lemmas cycle_defs =
  fetchTrends_def fetchTrends_components_def fetchTrends_part0_def
  fetchTrends_start_components_def fetchTrends_start_part0_def
  fetchTrends_begin_components_def fetchTrends_begin_part0_def
  fetchTrends_resume_components_def fetchTrends_resume_part0_def
  fetchTrends_catch_components_def fetchTrends_catch_part0_def fetchTrends_finally_def
  apiBase_components_def apiBase_part0_def validate_part0_def
  error_text_components_def error_text_part0_def server_error_def opt_prop_def
  try_block_def try_block_components_def try_block_part0_def
  cycle_succeeds_def initial_state_def

lemmas render_defs =
  TrendingPosts_render_components_def TrendingPosts_render_part0_def
  header_def li_components_def li_part0_def score_text_def item_entry_def

lemmas effect_defs =
  mount_def unmount_def useEffect_run_def useEffect_cleanup_def call_fetchTrends_def
  setState_def tick_def settle_def fetchTrends_start_def fetchTrends_resume_def

section \<open>Properties\<close>

subsection \<open>What a cycle does to each state variable\<close>

lemma try_block_components_cycle:
  "fst (fetchTrends_components e s) =
     fetchTrends_finally
       (case try_block_components e of
          Inl err \<Rightarrow> fetchTrends_catch_components err (fetchTrends_begin_components s)
        | Inr d \<Rightarrow> (fetchTrends_begin_components s)\<lparr>trends := d, lastUpdated := Some (now e)\<rparr>)"
  by (simp add: fetchTrends_components_def fetchTrends_start_components_def
      fetchTrends_resume_components_def try_block_components_def split: axios_result.splits)

lemma try_block_part0_cycle:
  "fst (fetchTrends_part0 e s) =
     fetchTrends_finally
       (case try_block_part0 e of
          Inl err \<Rightarrow> fetchTrends_catch_part0 err (fetchTrends_begin_part0 s)
        | Inr d \<Rightarrow> (fetchTrends_begin_part0 s)\<lparr>trends := d, lastUpdated := Some (now e)\<rparr>)"
  by (simp add: fetchTrends_part0_def fetchTrends_start_part0_def Let_def
      fetchTrends_resume_part0_def try_block_part0_def split: axios_result.splits sum.splits)

lemma cycle_lastUpdated:
  "lastUpdated (fst (fetchTrends v e s)) =
     (case try_block v e of Inl err \<Rightarrow> lastUpdated s | Inr d \<Rightarrow> Some (now e))"
  by (cases v)
     (simp_all add: fetchTrends_def try_block_def try_block_components_cycle try_block_part0_cycle
        fetchTrends_finally_def fetchTrends_catch_components_def fetchTrends_catch_part0_def
        fetchTrends_begin_components_def fetchTrends_begin_part0_def split: sum.splits)

lemma cycle_isLoading:
  "isLoading (fst (fetchTrends v e s)) = False"
  by (cases v)
     (simp_all add: fetchTrends_def try_block_components_cycle try_block_part0_cycle
        fetchTrends_finally_def)

lemma run_append: "run v s (xs @ ys) = run v (run v s xs) ys"
  by (induction xs arbitrary: s) simp_all

lemma run_lastUpdated:
  "lastUpdated (run v s es) = (case last_success v es of Some t \<Rightarrow> Some t | None \<Rightarrow> lastUpdated s)"
  by (induction es arbitrary: s)
     (auto simp: cycle_lastUpdated cycle_succeeds_def split: option.splits sum.splits)

lemma last_success_None: "last_success v es = None \<longleftrightarrow> (\<forall>e\<in>set es. \<not> cycle_succeeds v e)"
  by (induction es) (auto split: option.splits)

text \<open>
  The part_000 variant does to the state what the specification's classification of the
  cycle asks for.
\<close>

lemma part0_cycle_by_outcome:
  "fst (fetchTrends_part0 e s) =
     (case outcome_by_spec e of
        ConfigFailure \<Rightarrow>
          s\<lparr>isLoading := False, error := JStr ''REACT_APP_BACKEND_URL not set in .env''\<rparr>
      | TransportFailure err \<Rightarrow> s\<lparr>isLoading := False, error := error_text_part0 err\<rparr>
      | ValidationFailure d \<Rightarrow> s\<lparr>isLoading := False, error := JStr ''Unexpected backend response''\<rparr>
      | Success d \<Rightarrow>
          s\<lparr>trends := d, isLoading := False, error := JStr [], lastUpdated := Some (now e)\<rparr>)"
  by (simp add: outcome_by_spec_def fetchTrends_part0_def fetchTrends_start_part0_def
      fetchTrends_begin_part0_def apiBase_part0_def fetchTrends_resume_part0_def validate_part0_def
      fetchTrends_catch_part0_def fetchTrends_finally_def error_text_part0_def server_error_def
      split: option.splits axios_result.splits)

text \<open>\<open>err.response?.data?.error\<close> is truthy exactly when there is a server-supplied text.\<close>

lemma server_error_body:
  "server_error (JsError msg resp) =
     (case body_error_field resp of
        Some x \<Rightarrow> x
      | None \<Rightarrow> server_error (JsError msg resp))"
  "body_error_field resp = None \<Longrightarrow> \<not> truthy (server_error (JsError msg resp))"
  "body_error_field resp = Some x \<Longrightarrow> truthy x"
proof -
  show "server_error (JsError msg resp) =
     (case body_error_field resp of
        Some x \<Rightarrow> x
      | None \<Rightarrow> server_error (JsError msg resp))"
    by (auto simp: server_error_def body_error_field_def opt_prop_def
        split: option.splits jsval.splits)
  show "body_error_field resp = None \<Longrightarrow> \<not> truthy (server_error (JsError msg resp))"
  proof (cases resp)
    case None
    then show ?thesis by (simp add: server_error_def)
  next
    case (Some d)
    assume "body_error_field resp = None"
    with Some show ?thesis
      by (cases d)
         (auto simp: server_error_def body_error_field_def opt_prop_def
            split: option.splits if_splits)
  qed
  show "body_error_field resp = Some x \<Longrightarrow> truthy x"
    by (auto simp: body_error_field_def split: option.splits jsval.splits if_splits)
qed

lemma error_text_part0_preference:
  "error_text_part0 (JsError msg resp) =
     (case body_error_field resp of
        Some x \<Rightarrow> x
      | None \<Rightarrow> if msg \<noteq> [] then JStr msg else JStr ''Could not load trends.'')"
proof (cases "body_error_field resp")
  case None
  then show ?thesis
    by (simp add: error_text_part0_def server_error_body(2))
next
  case (Some x)
  then have "server_error (JsError msg resp) = x"
    using server_error_body(1) [of msg resp] by simp
  with Some show ?thesis
    by (simp add: error_text_part0_def server_error_body(3) [OF Some])
qed

lemma error_text_components_preference:
  "error_text_components (JsError msg resp) =
     (case body_error_field resp of
        Some x \<Rightarrow> x
      | None \<Rightarrow> JStr ''Could not load trends.'')"
proof (cases "body_error_field resp")
  case None
  then show ?thesis
    by (simp add: error_text_components_def server_error_body(2))
next
  case (Some x)
  then have "server_error (JsError msg resp) = x"
    using server_error_body(1) [of msg resp] by simp
  with Some show ?thesis
    by (simp add: error_text_components_def server_error_body(3) [OF Some])
qed

text \<open>
  C1 (as amended). When the backend URL is undefined or empty, a cycle of the part_000
  variant issues no HTTP request and ends with \<open>error\<close> set to the message that names
  the missing setting, \<open>isLoading\<close> false and everything else as before; so does the
  first cycle, started by the effect on mount. The variant in frontend/src/components
  does not fail there: it requests the default URL.
\<close>

theorem C1_config_unset:
  assumes "backend_url e = None \<or> backend_url e = Some []"
  shows "fetchTrends_part0 e s =
           (s\<lparr>isLoading := False, error := JStr ''REACT_APP_BACKEND_URL not set in .env''\<rparr>, [])
         \<and> pstate (mount Part0 e) =
             initial_state\<lparr>isLoading := False, error := JStr ''REACT_APP_BACKEND_URL not set in .env''\<rparr>
         \<and> sent (mount Part0 e) = []
         \<and> snd (fetchTrends_components e s) = [''http://127.0.0.1:5001/api/trending'']"
  using assms
  by (auto simp: cycle_defs effect_defs)

theorem C1_config_unset_witness:
  "backend_url env_unset = None
   \<and> fetchTrends_part0 env_unset initial_state =
       (\<lparr>trends = JArr [], isLoading = False,
         error = JStr ''REACT_APP_BACKEND_URL not set in .env'', lastUpdated = None\<rparr>, [])
   \<and> sent (mount Part0 env_unset) = []"
  using C1_config_unset [of env_unset initial_state]
  by (simp add: env_unset_def initial_state_def)

text \<open>
  C1, as stated, fails on frontend/src/components/TrendingPosts.js: with the URL
  undefined the cycle issues a request to the default URL and, the backend answering,
  ends without an error.
\<close>

theorem C1_counterexample:
  "backend_url env_unset = None
   \<and> snd (fetchTrends_components env_unset initial_state) = [''http://127.0.0.1:5001/api/trending'']
   \<and> error (fst (fetchTrends_components env_unset initial_state)) = JStr []"
  by (simp add: cycle_defs scenario_defs)


lemma part0_non_array_payload:
  assumes "backend_url e = Some u" "u \<noteq> []"
    and "axios_get e (u @ ''/api/trending'') = Resolved d" "\<not> isArray d"
  shows "fetchTrends_part0 e s =
           (s\<lparr>isLoading := False, error := JStr ''Unexpected backend response''\<rparr>,
            [u @ ''/api/trending''])"
  using assms by (simp add: cycle_defs)

text \<open>
  C2. In frontend/src/components/TrendingPosts.js the payload is stored unchecked: after a
  cycle that showed one item, a cycle whose request succeeds with a body that is an
  object and no array ends without an error, with the object in \<open>trends\<close>, and the
  next render throws where it calls \<open>trends.map\<close>.
\<close>

theorem C2_components_non_array_payload:
  "trends (fst (fetchTrends_components env_hello initial_state)) = JArr [hello_item]
   \<and> axios_get env_object ''http://api.test/api/trending'' = Resolved (JObj [(''status'', JStr ''ok'')])
   \<and> trends (fst (fetchTrends_components env_object (fst (fetchTrends_components env_hello initial_state))))
       = JObj [(''status'', JStr ''ok'')]
   \<and> error (fst (fetchTrends_components env_object (fst (fetchTrends_components env_hello initial_state))))
       = JStr []
   \<and> TrendingPosts_render_components toLocaleTimeString_sample
        (fst (fetchTrends_components env_object (fst (fetchTrends_components env_hello initial_state))))
       = Inl TypeError"
  by (simp add: cycle_defs scenario_defs render_defs)

text \<open>
  The part_000 variant keeps the items over a failed request, whatever the state the
  request's answer meets, and over a whole cycle that failed.
\<close>

lemma part0_failure_keeps_items:
  "trends (fetchTrends_resume_part0 (Rejected err) t s) = trends s"
  "\<not> isArray d \<Longrightarrow> trends (fetchTrends_resume_part0 (Resolved d) t s) = trends s"
  "\<not> succeeded (outcome_by_spec e) \<Longrightarrow> trends (fst (fetchTrends_part0 e s)) = trends s"
proof -
  show "trends (fetchTrends_resume_part0 (Rejected err) t s) = trends s"
    by (simp add: fetchTrends_resume_part0_def fetchTrends_catch_part0_def fetchTrends_finally_def)
  show "\<not> isArray d \<Longrightarrow> trends (fetchTrends_resume_part0 (Resolved d) t s) = trends s"
    by (simp add: fetchTrends_resume_part0_def fetchTrends_catch_part0_def fetchTrends_finally_def
        validate_part0_def)
  show "\<not> succeeded (outcome_by_spec e) \<Longrightarrow> trends (fst (fetchTrends_part0 e s)) = trends s"
    by (cases "outcome_by_spec e") (simp_all add: part0_cycle_by_outcome)
qed

lemma part0_stale_items:
  assumes "outcome_by_spec e = Success d"
    and "\<forall>f\<in>set fs. \<not> succeeded (outcome_by_spec f)"
  shows "trends (run Part0 s (pre @ e # fs)) = d"
proof -
  have keep: "trends (run Part0 s' fs) = trends s'" for s'
    using assms(2)
    by (induction fs arbitrary: s') (simp_all add: fetchTrends_def part0_failure_keeps_items(3))
  have "trends (fst (fetchTrends_part0 e (run Part0 s pre))) = d"
    using assms(1) by (simp add: part0_cycle_by_outcome)
  then show ?thesis
    by (simp add: run_append keep fetchTrends_def)
qed

text \<open>
  C3. In frontend/src/components/TrendingPosts.js a cycle showed a list of two posts; the
  next request succeeds with a body that is an object and no array, which the
  specification counts as a validation failure. The cycle replaces the items by that
  object and sets no error message: the items of the last successful cycle are lost.
\<close>

theorem C3_components_items_overwritten:
  "outcome_by_spec env_titles = Success (JArr [JStr ''first post'', JStr ''second post''])
   \<and> trends (run Components initial_state [env_titles]) = JArr [JStr ''first post'', JStr ''second post'']
   \<and> outcome_by_spec env_object = ValidationFailure (JObj [(''status'', JStr ''ok'')])
   \<and> trends (run Components initial_state [env_titles, env_object]) = JObj [(''status'', JStr ''ok'')]
   \<and> error (run Components initial_state [env_titles, env_object]) = JStr []
   \<and> trends (run Part0 initial_state [env_titles, env_object]) = JArr [JStr ''first post'', JStr ''second post'']
   \<and> error (run Part0 initial_state [env_titles, env_object]) = JStr ''Unexpected backend response''"
  by (simp add: cycle_defs scenario_defs outcome_by_spec_def)

text \<open>
  C4 (as amended). When a request is rejected, the part_000 variant sets \<open>error\<close> to the
  \<open>error\<close> field of the response body when the error has a response whose body is an
  object with such a field and the field is not empty; else to the error's own message
  when that is not empty; else to \<open>Could not load trends.\<close>. This holds for whatever
  state the rejection meets and for a whole cycle. The errors the variant throws itself
  have no response and show their own message. The variant in frontend/src/components
  skips the middle step: the response body's field, else the generic text.
\<close>

theorem C4_error_message_preference:
  "error (fetchTrends_resume_part0 (Rejected (JsError msg resp)) t s) =
     (case body_error_field resp of
        Some x \<Rightarrow> x
      | None \<Rightarrow> if msg \<noteq> [] then JStr msg else JStr ''Could not load trends.'')
   \<and> (map_of fs ''error'' = Some x \<and> truthy x \<longrightarrow>
        error (fetchTrends_resume_part0 (Rejected (JsError msg (Some (JObj fs)))) t s) = x)
   \<and> error (fetchTrends_resume_part0 (Rejected (JsError msg None)) t s) =
        (if msg \<noteq> [] then JStr msg else JStr ''Could not load trends.'')
   \<and> (outcome_by_spec e = TransportFailure (JsError msg resp) \<longrightarrow>
        error (fst (fetchTrends_part0 e s)) =
          (case body_error_field resp of
             Some x \<Rightarrow> x
           | None \<Rightarrow> if msg \<noteq> [] then JStr msg else JStr ''Could not load trends.''))
   \<and> (\<not> isArray d \<longrightarrow>
        error (fetchTrends_resume_part0 (Resolved d) t s) = JStr ''Unexpected backend response'')
   \<and> (outcome_by_spec e' = ConfigFailure \<longrightarrow>
        error (fst (fetchTrends_part0 e' s)) = JStr ''REACT_APP_BACKEND_URL not set in .env'')
   \<and> error (fetchTrends_resume_components (Rejected (JsError msg resp)) t s) =
        (case body_error_field resp of
           Some x \<Rightarrow> x
         | None \<Rightarrow> JStr ''Could not load trends.'')
   \<and> (map_of fs ''error'' = Some x \<and> truthy x \<longrightarrow>
        error (fetchTrends_resume_components (Rejected (JsError msg (Some (JObj fs)))) t s) = x)
   \<and> error (fetchTrends_resume_components (Rejected (JsError msg None)) t s) =
        JStr ''Could not load trends.''"
proof -
  have p: "error (fetchTrends_resume_part0 (Rejected err) t s) = error_text_part0 err" for err
    by (simp add: fetchTrends_resume_part0_def fetchTrends_catch_part0_def fetchTrends_finally_def)
  have c: "error (fetchTrends_resume_components (Rejected err) t s) = error_text_components err"
    for err
    by (simp add: fetchTrends_resume_components_def fetchTrends_catch_components_def
        fetchTrends_finally_def)
  have field: "body_error_field (Some (JObj fs)) = Some x" if "map_of fs ''error'' = Some x" "truthy x"
    using that by (simp add: body_error_field_def)
  have none: "body_error_field None = None"
    by (simp add: body_error_field_def)
  have p1: "error (fetchTrends_resume_part0 (Rejected (JsError msg resp)) t s) =
     (case body_error_field resp of
        Some x \<Rightarrow> x
      | None \<Rightarrow> if msg \<noteq> [] then JStr msg else JStr ''Could not load trends.'')"
    by (simp only: p error_text_part0_preference)
  have p2: "error (fetchTrends_resume_part0 (Rejected (JsError msg (Some (JObj fs)))) t s) = x"
    if "map_of fs ''error'' = Some x \<and> truthy x"
    using that by (simp add: p error_text_part0_preference field)
  have p3: "error (fetchTrends_resume_part0 (Rejected (JsError msg None)) t s) =
        (if msg \<noteq> [] then JStr msg else JStr ''Could not load trends.'')"
    by (simp add: p error_text_part0_preference none)
  have p4: "error (fst (fetchTrends_part0 e s)) =
          (case body_error_field resp of
             Some x \<Rightarrow> x
           | None \<Rightarrow> if msg \<noteq> [] then JStr msg else JStr ''Could not load trends.'')"
    if "outcome_by_spec e = TransportFailure (JsError msg resp)"
    using that by (simp add: part0_cycle_by_outcome error_text_part0_preference)
  have p5: "error (fetchTrends_resume_part0 (Resolved d) t s) = JStr ''Unexpected backend response''"
    if "\<not> isArray d"
    using that
    by (simp add: fetchTrends_resume_part0_def fetchTrends_catch_part0_def fetchTrends_finally_def
        validate_part0_def error_text_part0_def server_error_def)
  have p6: "error (fst (fetchTrends_part0 e' s)) = JStr ''REACT_APP_BACKEND_URL not set in .env''"
    if "outcome_by_spec e' = ConfigFailure"
    using that by (simp add: part0_cycle_by_outcome)
  have c1: "error (fetchTrends_resume_components (Rejected (JsError msg resp)) t s) =
        (case body_error_field resp of
           Some x \<Rightarrow> x
         | None \<Rightarrow> JStr ''Could not load trends.'')"
    by (simp only: c error_text_components_preference)
  have c2: "error (fetchTrends_resume_components (Rejected (JsError msg (Some (JObj fs)))) t s) = x"
    if "map_of fs ''error'' = Some x \<and> truthy x"
    using that by (simp add: c error_text_components_preference field)
  have c3: "error (fetchTrends_resume_components (Rejected (JsError msg None)) t s) =
        JStr ''Could not load trends.''"
    by (simp add: c error_text_components_preference none)
  from p1 p2 p3 p4 p5 p6 c1 c2 c3 show ?thesis
    by blast
qed

theorem C4_error_message_preference_witness:
  "outcome_by_spec env_db_down =
     TransportFailure (JsError ''Request failed with status code 500''
                         (Some (JObj [(''error'', JStr ''db down'')])))
   \<and> error (fst (fetchTrends_part0 env_db_down initial_state)) = JStr ''db down''
   \<and> error (fetchTrends_resume_components
              (Rejected (JsError ''Request failed with status code 500''
                           (Some (JObj [(''error'', JStr ''db down'')])))) 2000 initial_state)
       = JStr ''db down''
   \<and> outcome_by_spec env_unset = ConfigFailure
   \<and> error (fst (fetchTrends_part0 env_unset initial_state)) = JStr ''REACT_APP_BACKEND_URL not set in .env''
   \<and> error (fetchTrends_resume_part0 (Resolved (JObj [(''status'', JStr ''ok'')])) 2000 initial_state)
       = JStr ''Unexpected backend response''
   \<and> outcome_by_spec env_unreachable = TransportFailure (JsError ''Network Error'' None)
   \<and> error (fst (fetchTrends_part0 env_unreachable initial_state)) = JStr ''Network Error''
   \<and> outcome_by_spec env_silent = TransportFailure (JsError [] None)
   \<and> error (fst (fetchTrends_part0 env_silent initial_state)) = JStr ''Could not load trends.''"
proof -
  let ?fs = "[(''error'', JStr ''db down'')]"
  let ?msg = "''Request failed with status code 500''"
  have a: "outcome_by_spec env_db_down = TransportFailure (JsError ?msg (Some (JObj ?fs)))"
    by (simp add: outcome_by_spec_def scenario_defs)
  have b: "outcome_by_spec env_unset = ConfigFailure"
    by (simp add: outcome_by_spec_def scenario_defs)
  have f: "map_of ?fs ''error'' = Some (JStr ''db down'') \<and> truthy (JStr ''db down'')"
    by simp
  have g: "body_error_field (Some (JObj ?fs)) = Some (JStr ''db down'')"
    by (simp add: body_error_field_def)
  have d: "\<not> isArray (JObj [(''status'', JStr ''ok'')])"
    by simp
  note t = C4_error_message_preference [where msg = ?msg and resp = "Some (JObj ?fs)"
      and fs = ?fs and x = "JStr ''db down''" and e = env_db_down and e' = env_unset
      and d = "JObj [(''status'', JStr ''ok'')]" and t = 2000 and s = initial_state]
  have u: "outcome_by_spec env_unreachable = TransportFailure (JsError ''Network Error'' None)"
    by (simp add: outcome_by_spec_def scenario_defs)
  have q: "outcome_by_spec env_silent = TransportFailure (JsError [] None)"
    by (simp add: outcome_by_spec_def scenario_defs)
  have n: "body_error_field None = None"
    by (simp add: body_error_field_def)
  note t2 = C4_error_message_preference [where msg = "''Network Error''" and resp = None
      and e = env_unreachable and s = initial_state]
  note t3 = C4_error_message_preference [where msg = "[]" and resp = None
      and e = env_silent and s = initial_state]
  from t2 u n have r2: "error (fst (fetchTrends_part0 env_unreachable initial_state)) = JStr ''Network Error''"
    by simp
  from t3 q n have r3: "error (fst (fetchTrends_part0 env_silent initial_state)) = JStr ''Could not load trends.''"
    by simp
  from t a b f g d u q r2 r3 show ?thesis
    by simp
qed

text \<open>
  C4, as stated, fails on frontend/src/components/TrendingPosts.js. An HTTP 500 with the
  body \<open>{error: 'db down'}\<close> shows the server's text, as the claim says; but a request
  that fails without a response, with the message \<open>Network Error\<close>, shows the generic
  text and not that message.
\<close>

theorem C4_counterexample:
  "axios_get env_db_down ''http://api.test/api/trending'' =
     Rejected (JsError ''Request failed with status code 500'' (Some (JObj [(''error'', JStr ''db down'')])))
   \<and> error (fst (fetchTrends_components env_db_down initial_state)) = JStr ''db down''
   \<and> axios_get env_unreachable ''http://api.test/api/trending'' = Rejected (JsError ''Network Error'' None)
   \<and> error (fst (fetchTrends_components env_unreachable initial_state)) = JStr ''Could not load trends.''
   \<and> error (fst (fetchTrends_components env_unreachable initial_state)) \<noteq> JStr ''Network Error''"
  by (simp add: cycle_defs scenario_defs)

lemma run_isLoading: "es \<noteq> [] \<Longrightarrow> \<not> isLoading (run v s es)"
proof (induction es rule: rev_induct)
  case Nil
  then show ?case by simp
next
  case (snoc e es)
  show ?case by (simp add: run_append cycle_isLoading)
qed

text \<open>
  C5 (as amended). A call of \<open>fetchTrends\<close> starts by clearing \<open>error\<close>, in both
  variants. The variant in frontend/src/components then sets \<open>isLoading\<close> to true
  when \<open>lastUpdated\<close> is unset and leaves it as it is otherwise; counted from the
  initial state, \<open>isLoading\<close> is true after the start of a cycle exactly when none of the
  cycles before it succeeded. The part_000 variant sets \<open>isLoading\<close> to true at the
  start of every cycle.
\<close>

theorem C5_cycle_start:
  "error (fetchTrends_begin v s) = JStr []
   \<and> isLoading (fetchTrends_begin_components s) = (if lastUpdated s = None then True else isLoading s)
   \<and> isLoading (fetchTrends_begin_components (run Components initial_state es))
       = (\<forall>e\<in>set es. \<not> cycle_succeeds Components e)
   \<and> isLoading (fetchTrends_begin_part0 s) = True"
proof -
  have clear: "error (fetchTrends_begin v s) = JStr []"
    by (cases v) (simp_all add: fetchTrends_begin_def fetchTrends_begin_components_def
        fetchTrends_begin_part0_def)
  have comp: "isLoading (fetchTrends_begin_components s) = (if lastUpdated s = None then True else isLoading s)"
    by (simp add: fetchTrends_begin_components_def)
  have hist: "isLoading (fetchTrends_begin_components (run Components initial_state es))
       = (\<forall>e\<in>set es. \<not> cycle_succeeds Components e)"
  proof (cases "es = []")
    case True
    then show ?thesis
      by (simp add: fetchTrends_begin_components_def initial_state_def)
  next
    case False
    then have "\<not> isLoading (run Components initial_state es)"
      by (rule run_isLoading)
    moreover have "lastUpdated (run Components initial_state es) = last_success Components es"
      by (simp add: run_lastUpdated initial_state_def split: option.splits)
    ultimately have "isLoading (fetchTrends_begin_components (run Components initial_state es))
        = (last_success Components es = None)"
      by (simp add: fetchTrends_begin_components_def)
    then show ?thesis
      by (simp add: last_success_None)
  qed
  have p0: "isLoading (fetchTrends_begin_part0 s) = True"
    by (simp add: fetchTrends_begin_part0_def)
  from clear comp hist p0 show ?thesis
    by blast
qed

theorem C5_cycle_start_witness:
  "cycle_succeeds Components env_hello
   \<and> \<not> isLoading (fetchTrends_begin_components (run Components initial_state [env_hello]))
   \<and> \<not> cycle_succeeds Components env_db_down
   \<and> isLoading (fetchTrends_begin_components (run Components initial_state [env_db_down]))
   \<and> isLoading (fetchTrends_begin_part0 (run Part0 initial_state [env_hello]))"
proof -
  have a: "cycle_succeeds Components env_hello"
    by (simp add: cycle_defs scenario_defs)
  have b: "\<not> cycle_succeeds Components env_db_down"
    by (simp add: cycle_defs scenario_defs)
  from C5_cycle_start [of Components initial_state "[env_hello]"]
       C5_cycle_start [of Components initial_state "[env_db_down]"]
       C5_cycle_start [of Part0 "run Part0 initial_state [env_hello]" "[]"] a b
  show ?thesis
    by simp
qed

text \<open>
  C5, as stated, fails on src/unnamed/part_000: after a cycle that succeeded,
  \<open>lastUpdated\<close> is set and \<open>isLoading\<close> is false, and the start of the next cycle
  sets \<open>isLoading\<close> to true again.
\<close>

theorem C5_counterexample:
  "lastUpdated (fst (fetchTrends_part0 env_hello initial_state)) = Some 1000
   \<and> \<not> isLoading (fst (fetchTrends_part0 env_hello initial_state))
   \<and> isLoading (fetchTrends_begin_part0 (fst (fetchTrends_part0 env_hello initial_state)))"
  by (simp add: cycle_defs scenario_defs)

text \<open>
  C6. Every cycle ends with \<open>isLoading\<close> false, in both variants: whatever the
  configuration, the backend's answer and the state before; and so does the code that
  runs when a request in flight settles, whatever the request's result.
\<close>

theorem C6_loading_cleared:
  "\<not> isLoading (fst (fetchTrends v e s)) \<and> \<not> isLoading (fetchTrends_resume v r t s)"
  by (cases v)
     (simp_all add: cycle_isLoading fetchTrends_resume_def fetchTrends_resume_components_def
        fetchTrends_resume_part0_def fetchTrends_finally_def)

theorem C6_loading_cleared_witness:
  "\<not> isLoading (fst (fetchTrends Part0 env_unset initial_state))
   \<and> \<not> isLoading (fst (fetchTrends Part0 env_object initial_state))
   \<and> \<not> isLoading (fst (fetchTrends Components env_db_down initial_state))
   \<and> \<not> isLoading (fst (fetchTrends Components env_hello initial_state))"
  using C6_loading_cleared [of Part0 env_unset initial_state]
        C6_loading_cleared [of Part0 env_object initial_state]
        C6_loading_cleared [of Components env_db_down initial_state]
        C6_loading_cleared [of Components env_hello initial_state]
  by simp


subsection \<open>Rendering\<close>

lemma li_part0_well_formed:
  assumes "well_formed_item x"
  shows "li_part0 toFixed x = Inr (item_entry toFixed x)"
proof (cases x)
  case (JObj fs)
  with assms show ?thesis
    by (auto simp: well_formed_item_def li_part0_def item_entry_def score_text_def opt_prop_def
        split: option.splits jsval.splits)
qed (use assms in \<open>simp_all add: well_formed_item_def\<close>)

lemma map_throw_li_part0:
  "\<forall>x\<in>set xs. well_formed_item x \<Longrightarrow>
   map_throw (li_part0 toFixed) xs = Inr (map (item_entry toFixed) xs)"
  by (induction xs) (simp_all add: li_part0_well_formed)

lemma map_throw_li_components:
  "map_throw li_components xs = Inr (map (\<lambda>x. Tag ''li'' [Expr x]) xs)"
  by (induction xs) (simp_all add: li_components_def)

lemma render_part0_list:
  assumes "\<forall>x\<in>set xs. well_formed_item x" and "xs \<noteq> []"
    and "\<not> isLoading s" and "\<not> truthy (error s)" and "trends s = JArr xs"
  shows "TrendingPosts_render_part0 toFixed toLocaleTimeString s =
           Inr (Tag ''div'' [header toLocaleTimeString s, Tag ''ul'' (map (item_entry toFixed) xs)])"
proof -
  have "(of_nat (length xs) :: rat) \<noteq> 0"
    using assms(2) by simp
  then show ?thesis
    using assms(3-5)
    by (simp add: TrendingPosts_render_part0_def map_throw_li_part0 [OF assms(1)])
qed

lemma render_components_list:
  assumes "\<not> isLoading s" and "\<not> truthy (error s)" and "trends s = JArr xs"
  shows "TrendingPosts_render_components toLocaleTimeString s =
           Inr (Tag ''div''
                 [header toLocaleTimeString s, Tag ''ul'' (map (\<lambda>x. Tag ''li'' [Expr x]) xs)])"
  using assms by (simp add: TrendingPosts_render_components_def map_throw_li_components)

lemma render_part0_placeholder:
  assumes "\<not> isLoading s" and "\<not> truthy (error s)" and "trends s = JArr []"
  shows "TrendingPosts_render_part0 toFixed toLocaleTimeString s =
           Inr (Tag ''div'' [header toLocaleTimeString s, Tag ''p'' [Text ''No trending posts found.'']])"
  using assms by (simp add: TrendingPosts_render_part0_def)

lemma render_error_paragraph:
  assumes "\<not> isLoading s" and "truthy (error s)"
  shows "TrendingPosts_render_part0 toFixed toLocaleTimeString s =
           Inr (Tag ''div'' [header toLocaleTimeString s, Tag ''p'' [Expr (error s)]])"
    and "TrendingPosts_render_components toLocaleTimeString s =
           Inr (Tag ''div'' [header toLocaleTimeString s, Tag ''p'' [Expr (error s)]])"
  using assms
  by (simp_all add: TrendingPosts_render_part0_def TrendingPosts_render_components_def)

text \<open>The state a resolved request leaves: \<open>error\<close> is not touched.\<close>

lemma resume_part0_resolved:
  "fetchTrends_resume_part0 (Resolved (JArr xs)) t s =
     s\<lparr>trends := JArr xs, isLoading := False, lastUpdated := Some t\<rparr>"
  by (simp add: fetchTrends_resume_part0_def validate_part0_def fetchTrends_finally_def)

lemma resume_components_resolved:
  "fetchTrends_resume_components (Resolved d) t s =
     s\<lparr>trends := d, isLoading := False, lastUpdated := Some t\<rparr>"
  by (simp add: fetchTrends_resume_components_def fetchTrends_finally_def)

lemma components_cycle_resolved:
  assumes "axios_get e (apiBase_components e @ ''/api/trending'') = Resolved d"
  shows "fst (fetchTrends_components e s) =
           s\<lparr>trends := d, isLoading := False, error := JStr [], lastUpdated := Some (now e)\<rparr>"
  using assms
  by (simp add: fetchTrends_components_def fetchTrends_start_components_def
      fetchTrends_begin_components_def resume_components_resolved)

text \<open>
  C7 (as amended). Let \<open>xs\<close> be a non-empty array of well-formed items. In the part_000
  variant, the render of a state that is not loading, holds no error message and has
  \<open>xs\<close> as its items is the header and a list with one entry per item, in the array's
  order (the list is the array mapped entry by entry, so it has the array's length);
  each entry shows the item's sentiment, its text, and its score as \<open>toFixed(2)\<close>
  prints it, or \<open>N/A\<close> when the item has no score. A request that resolves with \<open>xs\<close>
  leaves such a state when no error message is set at that moment, and so does a whole
  cycle that no other cycle overlaps; when an error message is set at that moment (by a
  cycle that failed in between), it stays, and the render is the error paragraph. The
  variant in frontend/src/components renders, under the same conditions, a list of the
  same length and order whose entries hold the array's elements themselves.
\<close>

theorem C7_rendered_list:
  assumes "\<forall>x\<in>set xs. well_formed_item x" and "xs \<noteq> []"
  shows "(\<not> isLoading s \<and> \<not> truthy (error s) \<and> trends s = JArr xs \<longrightarrow>
            TrendingPosts_render_part0 toFixed toLocaleTimeString s =
              Inr (Tag ''div''
                    [header toLocaleTimeString s, Tag ''ul'' (map (item_entry toFixed) xs)]))
         \<and> (\<not> truthy (error s) \<longrightarrow>
            TrendingPosts_render_part0 toFixed toLocaleTimeString
                (fetchTrends_resume_part0 (Resolved (JArr xs)) t s) =
              Inr (Tag ''div''
                    [header toLocaleTimeString (fetchTrends_resume_part0 (Resolved (JArr xs)) t s),
                     Tag ''ul'' (map (item_entry toFixed) xs)]))
         \<and> (truthy (error s) \<longrightarrow>
            TrendingPosts_render_part0 toFixed toLocaleTimeString
                (fetchTrends_resume_part0 (Resolved (JArr xs)) t s) =
              Inr (Tag ''div''
                    [header toLocaleTimeString (fetchTrends_resume_part0 (Resolved (JArr xs)) t s),
                     Tag ''p'' [Expr (error s)]]))
         \<and> (outcome_by_spec e = Success (JArr xs) \<longrightarrow>
            TrendingPosts_render_part0 toFixed toLocaleTimeString (fst (fetchTrends_part0 e s)) =
              Inr (Tag ''div''
                    [header toLocaleTimeString (fst (fetchTrends_part0 e s)),
                     Tag ''ul'' (map (item_entry toFixed) xs)]))
         \<and> (\<not> isLoading s \<and> \<not> truthy (error s) \<and> trends s = JArr xs \<longrightarrow>
            TrendingPosts_render_components toLocaleTimeString s =
              Inr (Tag ''div''
                    [header toLocaleTimeString s, Tag ''ul'' (map (\<lambda>x. Tag ''li'' [Expr x]) xs)]))
         \<and> (axios_get e (apiBase_components e @ ''/api/trending'') = Resolved (JArr xs) \<longrightarrow>
            TrendingPosts_render_components toLocaleTimeString (fst (fetchTrends_components e s)) =
              Inr (Tag ''div''
                    [header toLocaleTimeString (fst (fetchTrends_components e s)),
                     Tag ''ul'' (map (\<lambda>x. Tag ''li'' [Expr x]) xs)]))
         \<and> length (map (item_entry toFixed) xs) = length xs
         \<and> (\<forall>i<length xs. map (item_entry toFixed) xs ! i = item_entry toFixed (xs ! i))"
proof -
  let ?r = "fetchTrends_resume_part0 (Resolved (JArr xs)) t s"
  have r: "\<not> isLoading ?r" "error ?r = error s" "trends ?r = JArr xs"
    by (simp_all add: resume_part0_resolved)
  have a: "TrendingPosts_render_part0 toFixed toLocaleTimeString s =
              Inr (Tag ''div''
                    [header toLocaleTimeString s, Tag ''ul'' (map (item_entry toFixed) xs)])"
    if "\<not> isLoading s \<and> \<not> truthy (error s) \<and> trends s = JArr xs"
    using that by (simp add: render_part0_list [OF assms])
  have b: "TrendingPosts_render_part0 toFixed toLocaleTimeString ?r =
              Inr (Tag ''div'' [header toLocaleTimeString ?r, Tag ''ul'' (map (item_entry toFixed) xs)])"
    if "\<not> truthy (error s)"
    using that r by (intro render_part0_list [OF assms]) simp_all
  have c: "TrendingPosts_render_part0 toFixed toLocaleTimeString ?r =
              Inr (Tag ''div'' [header toLocaleTimeString ?r, Tag ''p'' [Expr (error s)]])"
    if "truthy (error s)"
    using that r render_error_paragraph(1) [of ?r toFixed toLocaleTimeString] by simp
  have d: "TrendingPosts_render_part0 toFixed toLocaleTimeString (fst (fetchTrends_part0 e s)) =
              Inr (Tag ''div''
                    [header toLocaleTimeString (fst (fetchTrends_part0 e s)),
                     Tag ''ul'' (map (item_entry toFixed) xs)])"
    if "outcome_by_spec e = Success (JArr xs)"
    by (intro render_part0_list [OF assms]) (simp_all add: part0_cycle_by_outcome that)
  have e1: "TrendingPosts_render_components toLocaleTimeString s =
              Inr (Tag ''div''
                    [header toLocaleTimeString s, Tag ''ul'' (map (\<lambda>x. Tag ''li'' [Expr x]) xs)])"
    if "\<not> isLoading s \<and> \<not> truthy (error s) \<and> trends s = JArr xs"
    using that by (simp add: render_components_list)
  have e2: "TrendingPosts_render_components toLocaleTimeString (fst (fetchTrends_components e s)) =
              Inr (Tag ''div''
                    [header toLocaleTimeString (fst (fetchTrends_components e s)),
                     Tag ''ul'' (map (\<lambda>x. Tag ''li'' [Expr x]) xs)])"
    if "axios_get e (apiBase_components e @ ''/api/trending'') = Resolved (JArr xs)"
    by (intro render_components_list) (simp_all add: components_cycle_resolved [OF that])
  from a b c d e1 e2 show ?thesis
    by simp
qed

theorem C7_rendered_list_witness:
  "well_formed_item bye_item \<and> well_formed_item hello_item
   \<and> outcome_by_spec env_two = Success (JArr [bye_item, hello_item])
   \<and> TrendingPosts_render_part0 toFixed_sample toLocaleTimeString_sample
        (fst (fetchTrends_part0 env_two initial_state)) =
       Inr (Tag ''div''
             [Tag ''div''
                [Tag ''h2'' [Text ''Live Posts from X''],
                 Tag ''span'' [Text ''Updated at: '', Expr (JStr ''10:00:01'')]],
              Tag ''ul''
                [Tag ''li''
                   [Tag ''div'' [Tag ''strong'' [Text ''Sentiment:''], Text '' '', Expr (JStr ''negative'')],
                    Tag ''div'' [Expr (JStr ''bye'')],
                    Tag ''div'' [Text ''Score: '', Expr (JStr ''N/A'')]],
                 Tag ''li''
                   [Tag ''div'' [Tag ''strong'' [Text ''Sentiment:''], Text '' '', Expr (JStr ''positive'')],
                    Tag ''div'' [Expr (JStr ''hello'')],
                    Tag ''div'' [Text ''Score: '', Expr (JStr ''0.87'')]]]])"
proof -
  have wf1: "well_formed_item bye_item"
    by (simp add: well_formed_item_def bye_item_def)
  have wf2: "well_formed_item hello_item"
    by (simp add: well_formed_item_def hello_item_def)
  from wf1 wf2 have all: "\<forall>x\<in>set [bye_item, hello_item]. well_formed_item x"
    by simp
  have ne: "[bye_item, hello_item] \<noteq> []"
    by simp
  have ok: "outcome_by_spec env_two = Success (JArr [bye_item, hello_item])"
    by (simp add: outcome_by_spec_def env_two_def backend_two_def)
  have clock: "now env_two = 1000"
    by (simp add: env_two_def)
  have hdr: "header toLocaleTimeString_sample (fst (fetchTrends_part0 env_two initial_state)) =
      Tag ''div''
        [Tag ''h2'' [Text ''Live Posts from X''],
         Tag ''span'' [Text ''Updated at: '', Expr (JStr ''10:00:01'')]]"
    using clock by (simp add: part0_cycle_by_outcome ok header_def toLocaleTimeString_sample_def)
  have entry1: "item_entry toFixed_sample bye_item =
      Tag ''li''
        [Tag ''div'' [Tag ''strong'' [Text ''Sentiment:''], Text '' '', Expr (JStr ''negative'')],
         Tag ''div'' [Expr (JStr ''bye'')],
         Tag ''div'' [Text ''Score: '', Expr (JStr ''N/A'')]]"
    by (simp add: item_entry_def bye_item_def opt_prop_def)
  have entry2: "item_entry toFixed_sample hello_item =
      Tag ''li''
        [Tag ''div'' [Tag ''strong'' [Text ''Sentiment:''], Text '' '', Expr (JStr ''positive'')],
         Tag ''div'' [Expr (JStr ''hello'')],
         Tag ''div'' [Text ''Score: '', Expr (JStr ''0.87'')]]"
    by (simp add: item_entry_def hello_item_def opt_prop_def toFixed_sample_def)
  note t = C7_rendered_list [OF all ne, where e = env_two and toFixed = toFixed_sample
      and toLocaleTimeString = toLocaleTimeString_sample and s = initial_state]
  from t ok have "TrendingPosts_render_part0 toFixed_sample toLocaleTimeString_sample
        (fst (fetchTrends_part0 env_two initial_state)) =
       Inr (Tag ''div''
             [header toLocaleTimeString_sample (fst (fetchTrends_part0 env_two initial_state)),
              Tag ''ul'' (map (item_entry toFixed_sample) [bye_item, hello_item])])"
    by blast
  with wf1 wf2 ok hdr entry1 entry2 show ?thesis
    by simp
qed

text \<open>
  C7, as stated, fails in two ways. On frontend/src/components/TrendingPosts.js the entry
  rendered for a well-formed item holds the item itself, not its sentiment, text and
  score. On part_000, when a second cycle starts while the first request is in flight
  and fails before the first request resolves with a well-formed item, the error message
  of the failed cycle stays, and the render of the state that the successful fetch
  leaves is the error paragraph, not the list.
\<close>

theorem C7_counterexample:
  "well_formed_item hello_item
   \<and> TrendingPosts_render_components toLocaleTimeString_sample
        (fst (fetchTrends_components env_hello initial_state)) =
       Inr (Tag ''div''
             [Tag ''div''
                [Tag ''h2'' [Text ''Live Posts from X''],
                 Tag ''span'' [Text ''Updated at: '', Expr (JStr ''10:00:01'')]],
              Tag ''ul'' [Tag ''li'' [Expr hello_item]]])
   \<and> Tag ''li'' [Expr hello_item] \<noteq> item_entry toFixed_sample hello_item
   \<and> trends (pstate (steps Part0 overlap_hello (mount Part0 env_hello))) = JArr [hello_item]
   \<and> TrendingPosts_render_part0 toFixed_sample toLocaleTimeString_sample
        (pstate (steps Part0 overlap_hello (mount Part0 env_hello))) =
       Inr (Tag ''div''
             [Tag ''div''
                [Tag ''h2'' [Text ''Live Posts from X''],
                 Tag ''span'' [Text ''Updated at: '', Expr (JStr ''10:00:02'')]],
              Tag ''p'' [Expr (JStr ''db down'')]])"
  by (simp add: cycle_defs scenario_defs render_defs effect_defs well_formed_item_def)

text \<open>
  C8 (as amended). In the part_000 variant, when a request resolves with the empty array
  and no error message is set at that moment, the component is neither loading nor in
  error and the render is the header and the paragraph \<open>No trending posts found.\<close>, with
  no error paragraph; the same holds after a whole cycle that no other cycle overlaps,
  and for every state that is not loading, holds no error message and has the empty
  array as its items. The variant in frontend/src/components has no such paragraph:
  under the same conditions it renders the header and a list without entries.
\<close>

theorem C8_empty_array:
  "(\<not> isLoading s \<and> \<not> truthy (error s) \<and> trends s = JArr [] \<longrightarrow>
      TrendingPosts_render_part0 toFixed toLocaleTimeString s =
        Inr (Tag ''div'' [header toLocaleTimeString s, Tag ''p'' [Text ''No trending posts found.'']]))
   \<and> (\<not> truthy (error s) \<longrightarrow>
      TrendingPosts_render_part0 toFixed toLocaleTimeString
          (fetchTrends_resume_part0 (Resolved (JArr [])) t s) =
        Inr (Tag ''div''
              [header toLocaleTimeString (fetchTrends_resume_part0 (Resolved (JArr [])) t s),
               Tag ''p'' [Text ''No trending posts found.'']]))
   \<and> (outcome_by_spec e = Success (JArr []) \<longrightarrow>
      TrendingPosts_render_part0 toFixed toLocaleTimeString (fst (fetchTrends_part0 e s)) =
        Inr (Tag ''div''
              [header toLocaleTimeString (fst (fetchTrends_part0 e s)),
               Tag ''p'' [Text ''No trending posts found.'']])
      \<and> error (fst (fetchTrends_part0 e s)) = JStr []
      \<and> \<not> isLoading (fst (fetchTrends_part0 e s)))
   \<and> (\<not> isLoading s \<and> \<not> truthy (error s) \<and> trends s = JArr [] \<longrightarrow>
      TrendingPosts_render_components toLocaleTimeString s =
        Inr (Tag ''div'' [header toLocaleTimeString s, Tag ''ul'' []]))
   \<and> (\<not> truthy (error s) \<longrightarrow>
      TrendingPosts_render_components toLocaleTimeString
          (fetchTrends_resume_components (Resolved (JArr [])) t s) =
        Inr (Tag ''div''
              [header toLocaleTimeString (fetchTrends_resume_components (Resolved (JArr [])) t s),
               Tag ''ul'' []]))
   \<and> (axios_get e (apiBase_components e @ ''/api/trending'') = Resolved (JArr []) \<longrightarrow>
      TrendingPosts_render_components toLocaleTimeString (fst (fetchTrends_components e s)) =
        Inr (Tag ''div''
              [header toLocaleTimeString (fst (fetchTrends_components e s)), Tag ''ul'' []])
      \<and> error (fst (fetchTrends_components e s)) = JStr []
      \<and> \<not> isLoading (fst (fetchTrends_components e s)))"
proof -
  let ?r = "fetchTrends_resume_part0 (Resolved (JArr [])) t s"
  let ?c = "fetchTrends_resume_components (Resolved (JArr [])) t s"
  have a: "TrendingPosts_render_part0 toFixed toLocaleTimeString s =
        Inr (Tag ''div'' [header toLocaleTimeString s, Tag ''p'' [Text ''No trending posts found.'']])"
    if "\<not> isLoading s \<and> \<not> truthy (error s) \<and> trends s = JArr []"
    using that by (simp add: render_part0_placeholder)
  have b: "TrendingPosts_render_part0 toFixed toLocaleTimeString ?r =
        Inr (Tag ''div'' [header toLocaleTimeString ?r, Tag ''p'' [Text ''No trending posts found.'']])"
    if "\<not> truthy (error s)"
    by (intro render_part0_placeholder) (simp_all add: resume_part0_resolved that)
  have c: "TrendingPosts_render_part0 toFixed toLocaleTimeString (fst (fetchTrends_part0 e s)) =
        Inr (Tag ''div''
              [header toLocaleTimeString (fst (fetchTrends_part0 e s)),
               Tag ''p'' [Text ''No trending posts found.'']])
      \<and> error (fst (fetchTrends_part0 e s)) = JStr []
      \<and> \<not> isLoading (fst (fetchTrends_part0 e s))"
    if ok: "outcome_by_spec e = Success (JArr [])"
  proof -
    have st: "\<not> isLoading (fst (fetchTrends_part0 e s))" "error (fst (fetchTrends_part0 e s)) = JStr []"
      "trends (fst (fetchTrends_part0 e s)) = JArr []"
      by (simp_all add: part0_cycle_by_outcome ok)
    then show ?thesis
      by (simp add: render_part0_placeholder)
  qed
  have d: "TrendingPosts_render_components toLocaleTimeString s =
        Inr (Tag ''div'' [header toLocaleTimeString s, Tag ''ul'' []])"
    if "\<not> isLoading s \<and> \<not> truthy (error s) \<and> trends s = JArr []"
    using that render_components_list [of s "[]" toLocaleTimeString] by simp
  have f: "TrendingPosts_render_components toLocaleTimeString ?c =
        Inr (Tag ''div'' [header toLocaleTimeString ?c, Tag ''ul'' []])"
    if "\<not> truthy (error s)"
    using that render_components_list [of ?c "[]" toLocaleTimeString]
    by (simp add: resume_components_resolved)
  have g: "TrendingPosts_render_components toLocaleTimeString (fst (fetchTrends_components e s)) =
        Inr (Tag ''div''
              [header toLocaleTimeString (fst (fetchTrends_components e s)), Tag ''ul'' []])
      \<and> error (fst (fetchTrends_components e s)) = JStr []
      \<and> \<not> isLoading (fst (fetchTrends_components e s))"
    if ok: "axios_get e (apiBase_components e @ ''/api/trending'') = Resolved (JArr [])"
  proof -
    have st: "\<not> isLoading (fst (fetchTrends_components e s))"
      "error (fst (fetchTrends_components e s)) = JStr []"
      "trends (fst (fetchTrends_components e s)) = JArr []"
      by (simp_all add: components_cycle_resolved [OF ok])
    then show ?thesis
      using render_components_list [of "fst (fetchTrends_components e s)" "[]" toLocaleTimeString]
      by simp
  qed
  from a b c d f g show ?thesis
    by blast
qed

theorem C8_empty_array_witness:
  "outcome_by_spec env_empty = Success (JArr [])
   \<and> axios_get env_empty (apiBase_components env_empty @ ''/api/trending'') = Resolved (JArr [])
   \<and> \<not> truthy (error initial_state)
   \<and> TrendingPosts_render_part0 toFixed_sample toLocaleTimeString_sample
        (fst (fetchTrends_part0 env_empty initial_state)) =
       Inr (Tag ''div''
             [Tag ''div''
                [Tag ''h2'' [Text ''Live Posts from X''],
                 Tag ''span'' [Text ''Updated at: '', Expr (JStr ''10:00:01'')]],
              Tag ''p'' [Text ''No trending posts found.'']])
   \<and> error (fst (fetchTrends_part0 env_empty initial_state)) = JStr []"
proof -
  have p: "outcome_by_spec env_empty = Success (JArr [])"
    by (simp add: outcome_by_spec_def env_empty_def backend_empty_def)
  have c: "axios_get env_empty (apiBase_components env_empty @ ''/api/trending'') = Resolved (JArr [])"
    by (simp add: env_empty_def backend_empty_def)
  have i: "\<not> truthy (error initial_state)"
    by (simp add: initial_state_def)
  have clock: "now env_empty = 1000"
    by (simp add: env_empty_def)
  have hdr: "header toLocaleTimeString_sample (fst (fetchTrends_part0 env_empty initial_state)) =
      Tag ''div''
        [Tag ''h2'' [Text ''Live Posts from X''],
         Tag ''span'' [Text ''Updated at: '', Expr (JStr ''10:00:01'')]]"
    using clock by (simp add: part0_cycle_by_outcome p header_def toLocaleTimeString_sample_def)
  note t = C8_empty_array [where e = env_empty and toFixed = toFixed_sample
      and toLocaleTimeString = toLocaleTimeString_sample and s = initial_state]
  from t p have "TrendingPosts_render_part0 toFixed_sample toLocaleTimeString_sample
        (fst (fetchTrends_part0 env_empty initial_state)) =
       Inr (Tag ''div''
             [header toLocaleTimeString_sample (fst (fetchTrends_part0 env_empty initial_state)),
              Tag ''p'' [Text ''No trending posts found.'']])
      \<and> error (fst (fetchTrends_part0 env_empty initial_state)) = JStr []"
    by blast
  with p c i hdr show ?thesis
    by simp
qed

text \<open>
  C8, as stated, fails on frontend/src/components/TrendingPosts.js: after a cycle that
  succeeded with the empty array the component is neither loading nor in error, and the
  output is an empty list, not the placeholder.
\<close>

theorem C8_counterexample:
  "axios_get env_empty ''http://api.test/api/trending'' = Resolved (JArr [])
   \<and> \<not> isLoading (fst (fetchTrends_components env_empty initial_state))
   \<and> \<not> truthy (error (fst (fetchTrends_components env_empty initial_state)))
   \<and> TrendingPosts_render_components toLocaleTimeString_sample
        (fst (fetchTrends_components env_empty initial_state)) =
       Inr (Tag ''div''
             [Tag ''div''
                [Tag ''h2'' [Text ''Live Posts from X''],
                 Tag ''span'' [Text ''Updated at: '', Expr (JStr ''10:00:01'')]],
              Tag ''ul'' []])"
  by (simp add: cycle_defs scenario_defs render_defs)

subsection \<open>Teardown and the timestamp\<close>

lemma steps_unmounted:
  assumes "\<not> mounted c" and "\<not> interval_set c"
  shows "steps v evs c = c"
proof (induction evs)
  case Nil
  show ?case by simp
next
  case (Cons ev evs)
  have "step v ev c = c"
  proof (cases ev)
    case (Tick e)
    with assms show ?thesis
      by (simp add: tick_def)
  next
    case (Settle r t e)
    with assms show ?thesis
      by (cases v; cases r) (simp_all add: settle_def setState_def)
  qed
  with Cons show ?case
    by simp
qed

text \<open>
  C9. After the teardown no state update is applied, whatever happens afterwards: the
  timer's period elapsing any number of times and requests that were in flight
  resolving or being rejected, in any order, leave the state variables as they were at
  the teardown, and no further request is sent. The timer is stopped by the effect's
  cleanup; the setter calls that the code makes when a request settles after the
  teardown are discarded by React. This holds for both variants.
\<close>

theorem C9_no_update_after_unmount:
  "steps v evs (unmount c) = unmount c
   \<and> pstate (steps v evs (unmount c)) = pstate c
   \<and> sent (steps v evs (unmount c)) = sent c
   \<and> pstate (settle v r t e (unmount c)) = pstate c
   \<and> tick v e (unmount c) = unmount c"
proof -
  have m: "\<not> mounted (unmount c)" and i: "\<not> interval_set (unmount c)"
    by (simp_all add: unmount_def useEffect_cleanup_def)
  have all: "steps v evs (unmount c) = unmount c"
    using m i by (rule steps_unmounted)
  have one: "steps v [Settle r t e] (unmount c) = unmount c"
    using m i by (rule steps_unmounted)
  have timer: "steps v [Tick e] (unmount c) = unmount c"
    using m i by (rule steps_unmounted)
  have same: "pstate (unmount c) = pstate c" "sent (unmount c) = sent c"
    by (simp_all add: unmount_def useEffect_cleanup_def)
  from all one timer same show ?thesis
    by simp
qed

theorem C9_no_update_after_unmount_witness:
  "sent (mount Part0 env_hello) = [''http://api.test/api/trending'']
   \<and> pstate (mount Part0 env_hello) =
       \<lparr>trends = JArr [], isLoading = True, error = JStr [], lastUpdated = None\<rparr>
   \<and> pstate (steps Part0 late_events (unmount (mount Part0 env_hello))) =
       \<lparr>trends = JArr [], isLoading = True, error = JStr [], lastUpdated = None\<rparr>
   \<and> sent (steps Part0 late_events (unmount (mount Part0 env_hello))) = [''http://api.test/api/trending'']
   \<and> pstate (steps Components late_events (unmount (mount Components env_hello))) =
       \<lparr>trends = JArr [], isLoading = True, error = JStr [], lastUpdated = None\<rparr>
   \<and> trends (pstate (steps Part0 late_events (mount Part0 env_hello))) = JArr [hello_item]
   \<and> error (pstate (steps Part0 late_events (mount Part0 env_hello))) = JStr ''Network Error''"
proof -
  have s: "sent (mount Part0 env_hello) = [''http://api.test/api/trending'']"
    by (simp add: effect_defs cycle_defs scenario_defs)
  have p: "pstate (mount Part0 env_hello) =
       \<lparr>trends = JArr [], isLoading = True, error = JStr [], lastUpdated = None\<rparr>"
    by (simp add: effect_defs cycle_defs scenario_defs)
  have c: "pstate (mount Components env_hello) =
       \<lparr>trends = JArr [], isLoading = True, error = JStr [], lastUpdated = None\<rparr>"
    by (simp add: effect_defs cycle_defs scenario_defs)
  have live: "trends (pstate (steps Part0 late_events (mount Part0 env_hello))) = JArr [hello_item]
      \<and> error (pstate (steps Part0 late_events (mount Part0 env_hello))) = JStr ''Network Error''"
    by (simp add: effect_defs cycle_defs scenario_defs)
  note t1 = C9_no_update_after_unmount [where v = Part0 and evs = late_events
      and c = "mount Part0 env_hello" and e = env_hello and t = 1000 and r = "Rejected (JsError [] None)"]
  note t2 = C9_no_update_after_unmount [where v = Components and evs = late_events
      and c = "mount Components env_hello" and e = env_hello and t = 1000
      and r = "Rejected (JsError [] None)"]
  from t1 have a1: "pstate (steps Part0 late_events (unmount (mount Part0 env_hello))) =
      pstate (mount Part0 env_hello)"
    and a2: "sent (steps Part0 late_events (unmount (mount Part0 env_hello))) =
      sent (mount Part0 env_hello)"
    by blast+
  from t2 have a3: "pstate (steps Components late_events (unmount (mount Components env_hello))) =
      pstate (mount Components env_hello)"
    by blast
  show ?thesis
    by (simp only: a1 a2 a3 s p c live simp_thms)
qed

lemma start_lastUpdated: "lastUpdated (fst (fetchTrends_start v e s)) = lastUpdated s"
  by (cases v)
     (simp_all add: fetchTrends_start_def fetchTrends_start_components_def
        fetchTrends_start_part0_def fetchTrends_begin_components_def fetchTrends_begin_part0_def
        fetchTrends_catch_part0_def fetchTrends_finally_def Let_def split: sum.splits)

lemma call_fetchTrends_frame:
  "lastUpdated (pstate (call_fetchTrends v e c)) = lastUpdated (pstate c)"
  "mounted (call_fetchTrends v e c) = mounted c"
proof -
  obtain s1 req where st: "fetchTrends_start v e (pstate c) = (s1, req)"
    by (cases "fetchTrends_start v e (pstate c)")
  then have "lastUpdated s1 = lastUpdated (pstate c)"
    using start_lastUpdated [of v e "pstate c"] by simp
  with st show "lastUpdated (pstate (call_fetchTrends v e c)) = lastUpdated (pstate c)"
    by (cases req) (simp_all add: call_fetchTrends_def setState_def)
  from st show "mounted (call_fetchTrends v e c) = mounted c"
    by (cases req) (simp_all add: call_fetchTrends_def setState_def)
qed

lemma resume_part0_lastUpdated:
  "lastUpdated (fetchTrends_resume_part0 (Rejected err) t s) = lastUpdated s"
  "\<not> isArray d \<Longrightarrow> lastUpdated (fetchTrends_resume_part0 (Resolved d) t s) = lastUpdated s"
  "lastUpdated (fetchTrends_resume_part0 (Resolved (JArr xs)) t s) = Some t"
  by (simp_all add: fetchTrends_resume_part0_def fetchTrends_catch_part0_def
      fetchTrends_finally_def validate_part0_def)

lemma step_part0:
  assumes "mounted c"
  shows "lastUpdated (pstate (step Part0 ev c)) =
           (if settled_ok ev then Some (settle_time ev) else lastUpdated (pstate c))"
    and "mounted (step Part0 ev c)"
proof -
  show "lastUpdated (pstate (step Part0 ev c)) =
           (if settled_ok ev then Some (settle_time ev) else lastUpdated (pstate c))"
  proof (cases ev)
    case (Tick e)
    then show ?thesis
      by (simp add: tick_def call_fetchTrends_frame)
  next
    case (Settle r t e)
    show ?thesis
    proof (cases r)
      case (Rejected err)
      with Settle assms show ?thesis
        by (simp add: settle_def setState_def fetchTrends_resume_def resume_part0_lastUpdated)
    next
      case (Resolved d)
      with Settle assms show ?thesis
        by (cases d)
           (simp_all add: settle_def setState_def fetchTrends_resume_def resume_part0_lastUpdated)
    qed
  qed
  show "mounted (step Part0 ev c)"
    using assms
    by (cases ev) (simp_all add: tick_def call_fetchTrends_frame settle_def setState_def)
qed

lemma steps_part0_lastUpdated:
  "mounted c \<Longrightarrow>
   lastUpdated (pstate (steps Part0 evs c)) =
     (case last_settled_ok evs of Some t \<Rightarrow> Some t | None \<Rightarrow> lastUpdated (pstate c))"
proof (induction evs arbitrary: c)
  case Nil
  show ?case by simp
next
  case (Cons ev evs)
  from Cons.prems have m: "mounted (step Part0 ev c)"
    by (rule step_part0(2))
  show ?case
    using Cons.IH [OF m] step_part0(1) [OF Cons.prems, of ev]
    by (simp split: option.splits)
qed

lemma last_settled_ok_None: "last_settled_ok evs = None \<longleftrightarrow> (\<forall>ev\<in>set evs. \<not> settled_ok ev)"
  by (induction evs) (auto split: option.splits)

lemma last_ok_None: "last_ok es = None \<longleftrightarrow> (\<forall>e\<in>set es. \<not> succeeded (outcome_by_spec e))"
  by (induction es) (auto split: option.splits)

lemma last_settled_ok_Some: "last_settled_ok evs \<noteq> None \<longleftrightarrow> (\<exists>ev\<in>set evs. settled_ok ev)"
  by (simp add: last_settled_ok_None)

lemma last_ok_Some: "last_ok es \<noteq> None \<longleftrightarrow> (\<exists>e\<in>set es. succeeded (outcome_by_spec e))"
  by (simp add: last_ok_None)

lemma part0_cycle_lastUpdated:
  "lastUpdated (fst (fetchTrends_part0 e s)) =
     (if succeeded (outcome_by_spec e) then Some (now e) else lastUpdated s)"
  by (cases "outcome_by_spec e") (simp_all add: part0_cycle_by_outcome)

lemma run_part0_lastUpdated:
  "lastUpdated (run Part0 s es) = (case last_ok es of Some t \<Rightarrow> Some t | None \<Rightarrow> lastUpdated s)"
  by (induction es arbitrary: s)
     (auto simp: fetchTrends_def part0_cycle_lastUpdated split: option.splits)

lemma mount_fresh:
  "mounted (mount v e)" "lastUpdated (pstate (mount v e)) = None"
  by (simp_all add: mount_def useEffect_run_def call_fetchTrends_frame initial_state_def)

lemma header_lastUpdated:
  "lastUpdated s' = lastUpdated s \<Longrightarrow> header toLocaleTimeString s' = header toLocaleTimeString s"
  by (simp add: header_def)

text \<open>
  C10 (as amended). In the part_000 variant \<open>lastUpdated\<close> is assigned on the success
  path only: a request that resolves with an array sets it to the time of the answer;
  a rejected request, an answer that is no array, a cycle with the URL unset and the
  start of any cycle leave it as it is, whatever the state they meet. So, from the
  creation of the component on, over any sequence of timer periods and settled
  requests, also overlapping ones, \<open>lastUpdated\<close> is the time of the last request that
  resolved with an array, and it is set exactly when some request did; the same holds
  over a sequence of whole cycles, counted by the specification's classification. The
  header shows that time, and after a rejected request the output is the header as it
  was above the error text. In frontend/src/components a rejected request leaves
  \<open>lastUpdated\<close> as it is and a request that resolves with an array sets it; with the
  URL unset the default URL is requested, and an array answered there sets it too.
\<close>

theorem C10_lastUpdated_on_success_only:
  "lastUpdated (fetchTrends_resume_part0 (Resolved (JArr xs)) t s) = Some t
   \<and> lastUpdated (fetchTrends_resume_part0 (Rejected err) t s) = lastUpdated s
   \<and> (\<not> isArray d \<longrightarrow> lastUpdated (fetchTrends_resume_part0 (Resolved d) t s) = lastUpdated s)
   \<and> lastUpdated (fst (fetchTrends_start v e s)) = lastUpdated s
   \<and> lastUpdated (fst (fetchTrends_part0 e s)) =
       (if succeeded (outcome_by_spec e) then Some (now e) else lastUpdated s)
   \<and> lastUpdated (pstate (steps Part0 evs (mount Part0 e))) = last_settled_ok evs
   \<and> (lastUpdated (pstate (steps Part0 evs (mount Part0 e))) \<noteq> None \<longleftrightarrow> (\<exists>ev\<in>set evs. settled_ok ev))
   \<and> lastUpdated (run Part0 initial_state es) = last_ok es
   \<and> (lastUpdated (run Part0 initial_state es) \<noteq> None \<longleftrightarrow> (\<exists>e\<in>set es. succeeded (outcome_by_spec e)))
   \<and> header toLocaleTimeString (run Part0 initial_state es) =
       Tag ''div''
         [Tag ''h2'' [Text ''Live Posts from X''],
          (case last_ok es of
             None \<Rightarrow> Expr JNull
           | Some t \<Rightarrow> Tag ''span'' [Text ''Updated at: '', Expr (JStr (toLocaleTimeString t))])]
   \<and> TrendingPosts_render_part0 toFixed toLocaleTimeString
        (fetchTrends_resume_part0 (Rejected (JsError msg resp)) t s) =
       Inr (Tag ''div''
             [header toLocaleTimeString s,
              Tag ''p'' [Expr (case body_error_field resp of
                                 Some x \<Rightarrow> x
                               | None \<Rightarrow> if msg \<noteq> [] then JStr msg
                                          else JStr ''Could not load trends.'')]])
   \<and> lastUpdated (fetchTrends_resume_components (Rejected err) t s) = lastUpdated s
   \<and> lastUpdated (fetchTrends_resume_components (Resolved (JArr xs)) t s) = Some t
   \<and> ((backend_url e = None \<or> backend_url e = Some []) \<and>
        axios_get e ''http://127.0.0.1:5001/api/trending'' = Resolved (JArr xs) \<longrightarrow>
        lastUpdated (fst (fetchTrends_components e s)) = Some (now e))"
proof -
  have a: "lastUpdated (fetchTrends_resume_part0 (Resolved (JArr xs)) t s) = Some t"
    by (rule resume_part0_lastUpdated(3))
  have b: "lastUpdated (fetchTrends_resume_part0 (Rejected err) t s) = lastUpdated s"
    by (rule resume_part0_lastUpdated(1))
  have c: "lastUpdated (fetchTrends_resume_part0 (Resolved d) t s) = lastUpdated s" if "\<not> isArray d"
    using that by (rule resume_part0_lastUpdated(2))
  have d: "lastUpdated (fst (fetchTrends_start v e s)) = lastUpdated s"
    by (rule start_lastUpdated)
  have f: "lastUpdated (fst (fetchTrends_part0 e s)) =
       (if succeeded (outcome_by_spec e) then Some (now e) else lastUpdated s)"
    by (rule part0_cycle_lastUpdated)
  have g: "lastUpdated (pstate (steps Part0 evs (mount Part0 e))) = last_settled_ok evs"
    using steps_part0_lastUpdated [OF mount_fresh(1), of evs Part0 e]
    by (simp add: mount_fresh(2) split: option.splits)
  have h: "lastUpdated (pstate (steps Part0 evs (mount Part0 e))) \<noteq> None \<longleftrightarrow> (\<exists>ev\<in>set evs. settled_ok ev)"
    unfolding g by (rule last_settled_ok_Some)
  have i: "lastUpdated (run Part0 initial_state es) = last_ok es"
    by (simp add: run_part0_lastUpdated initial_state_def split: option.splits)
  have j: "lastUpdated (run Part0 initial_state es) \<noteq> None \<longleftrightarrow> (\<exists>e\<in>set es. succeeded (outcome_by_spec e))"
    unfolding i by (rule last_ok_Some)
  have k: "header toLocaleTimeString (run Part0 initial_state es) =
       Tag ''div''
         [Tag ''h2'' [Text ''Live Posts from X''],
          (case last_ok es of
             None \<Rightarrow> Expr JNull
           | Some t \<Rightarrow> Tag ''span'' [Text ''Updated at: '', Expr (JStr (toLocaleTimeString t))])]"
    by (simp add: header_def i)
  have l: "TrendingPosts_render_part0 toFixed toLocaleTimeString
        (fetchTrends_resume_part0 (Rejected (JsError msg resp)) t s) =
       Inr (Tag ''div''
             [header toLocaleTimeString s,
              Tag ''p'' [Expr (case body_error_field resp of
                                 Some x \<Rightarrow> x
                               | None \<Rightarrow> if msg \<noteq> [] then JStr msg
                                          else JStr ''Could not load trends.'')]])"
  proof -
    let ?r = "fetchTrends_resume_part0 (Rejected (JsError msg resp)) t s"
    have st: "\<not> isLoading ?r" "error ?r = error_text_part0 (JsError msg resp)"
      by (simp_all add: fetchTrends_resume_part0_def fetchTrends_catch_part0_def
          fetchTrends_finally_def)
    have tr: "truthy (error_text_part0 (JsError msg resp))"
      by (simp add: error_text_part0_def)
    have hd: "header toLocaleTimeString ?r = header toLocaleTimeString s"
      by (rule header_lastUpdated) (rule resume_part0_lastUpdated(1))
    from st tr hd show ?thesis
      using render_error_paragraph(1) [of ?r toFixed toLocaleTimeString]
      by (simp add: error_text_part0_preference)
  qed
  have m: "lastUpdated (fetchTrends_resume_components (Rejected err) t s) = lastUpdated s"
    by (simp add: fetchTrends_resume_components_def fetchTrends_catch_components_def
        fetchTrends_finally_def)
  have n: "lastUpdated (fetchTrends_resume_components (Resolved (JArr xs)) t s) = Some t"
    by (simp add: resume_components_resolved)
  have o: "lastUpdated (fst (fetchTrends_components e s)) = Some (now e)"
    if "(backend_url e = None \<or> backend_url e = Some []) \<and>
        axios_get e ''http://127.0.0.1:5001/api/trending'' = Resolved (JArr xs)"
  proof -
    from that have "apiBase_components e = ''http://127.0.0.1:5001''"
      by (auto simp: apiBase_components_def)
    with that have "axios_get e (apiBase_components e @ ''/api/trending'') = Resolved (JArr xs)"
      by simp
    then show ?thesis
      by (simp add: components_cycle_resolved)
  qed
  from a b c d f g h i j k l m n o show ?thesis
    by blast
qed

theorem C10_lastUpdated_on_success_only_witness:
  "succeeded (outcome_by_spec env_hello)
   \<and> outcome_by_spec env_unset = ConfigFailure
   \<and> outcome_by_spec env_object = ValidationFailure (JObj [(''status'', JStr ''ok'')])
   \<and> \<not> succeeded (outcome_by_spec env_db_down)
   \<and> lastUpdated (run Part0 initial_state [env_hello, env_unset, env_db_down, env_object]) = Some 1000
   \<and> lastUpdated (run Part0 initial_state [env_unset, env_db_down, env_object]) = None
   \<and> lastUpdated (pstate (steps Part0 overlap_hello (mount Part0 env_hello))) = Some 3000
   \<and> \<not> isArray (JObj [(''status'', JStr ''ok'')])
   \<and> lastUpdated (fetchTrends_resume_part0 (Resolved (JObj [(''status'', JStr ''ok'')])) 2000
        (fst (fetchTrends_part0 env_hello initial_state))) = Some 1000
   \<and> backend_url env_unset = None
   \<and> lastUpdated (fst (fetchTrends_components env_unset initial_state)) = Some 1000"
proof -
  have o1: "outcome_by_spec env_hello = Success (JArr [hello_item])"
    by (simp add: outcome_by_spec_def scenario_defs)
  have o2: "outcome_by_spec env_unset = ConfigFailure"
    by (simp add: outcome_by_spec_def scenario_defs)
  have o3: "outcome_by_spec env_object = ValidationFailure (JObj [(''status'', JStr ''ok'')])"
    by (simp add: outcome_by_spec_def scenario_defs)
  have o4: "outcome_by_spec env_db_down =
      TransportFailure (JsError ''Request failed with status code 500''
                          (Some (JObj [(''error'', JStr ''db down'')])))"
    by (simp add: outcome_by_spec_def scenario_defs)
  have clock: "now env_hello = 1000" "now env_unset = 1000"
    by (simp_all add: env_hello_def env_unset_def)
  have l1: "last_ok [env_hello, env_unset, env_db_down, env_object] = Some 1000"
    by (simp add: o1 o2 o3 o4 clock)
  have l2: "last_ok [env_unset, env_db_down, env_object] = None"
    by (simp add: o2 o3 o4)
  have l3: "last_settled_ok overlap_hello = Some 3000"
    by (simp add: overlap_hello_def)
  have u: "backend_url env_unset = None
      \<and> axios_get env_unset ''http://127.0.0.1:5001/api/trending'' = Resolved (JArr [])"
    by (simp add: env_unset_def backend_empty_def)
  have na: "\<not> isArray (JObj [(''status'', JStr ''ok'')])"
    by simp
  note t1 = C10_lastUpdated_on_success_only [where es = "[env_hello, env_unset, env_db_down, env_object]"
      and evs = overlap_hello and e = env_hello and s = initial_state]
  note t2 = C10_lastUpdated_on_success_only [where es = "[env_unset, env_db_down, env_object]"]
  note t3 = C10_lastUpdated_on_success_only [where d = "JObj [(''status'', JStr ''ok'')]" and t = 2000
      and s = "fst (fetchTrends_part0 env_hello initial_state)"]
  note t4 = C10_lastUpdated_on_success_only [where e = env_unset and xs = "[]" and s = initial_state]
  from t1 have r1: "lastUpdated (run Part0 initial_state [env_hello, env_unset, env_db_down, env_object]) =
      last_ok [env_hello, env_unset, env_db_down, env_object]"
    and r3: "lastUpdated (pstate (steps Part0 overlap_hello (mount Part0 env_hello))) =
      last_settled_ok overlap_hello"
    and r5: "lastUpdated (fst (fetchTrends_part0 env_hello initial_state)) =
       (if succeeded (outcome_by_spec env_hello) then Some (now env_hello) else lastUpdated initial_state)"
    by blast+
  from t2 have r2: "lastUpdated (run Part0 initial_state [env_unset, env_db_down, env_object]) =
      last_ok [env_unset, env_db_down, env_object]"
    by blast
  from t3 na have r4: "lastUpdated (fetchTrends_resume_part0 (Resolved (JObj [(''status'', JStr ''ok'')])) 2000
        (fst (fetchTrends_part0 env_hello initial_state))) =
      lastUpdated (fst (fetchTrends_part0 env_hello initial_state))"
    by blast
  from t4 u have r6: "lastUpdated (fst (fetchTrends_components env_unset initial_state)) = Some (now env_unset)"
    by blast
  from r1 r2 r3 r4 r5 r6 l1 l2 l3 o1 o2 o3 o4 clock u na show ?thesis
    by simp
qed

text \<open>
  C10, as stated, fails on frontend/src/components/TrendingPosts.js for the
  configuration failure: with the URL unset the cycle is no failure there, the default
  URL is requested, and the backend's answer assigns \<open>lastUpdated\<close>.
\<close>

theorem C10_counterexample:
  "backend_url env_unset = None
   \<and> outcome_by_spec env_unset = ConfigFailure
   \<and> lastUpdated initial_state = None
   \<and> snd (fetchTrends_components env_unset initial_state) = [''http://127.0.0.1:5001/api/trending'']
   \<and> lastUpdated (fst (fetchTrends_components env_unset initial_state)) = Some 1000"
  by (simp add: cycle_defs scenario_defs outcome_by_spec_def)

end
